theory Spec2Isabelle
  imports Complex_Main "HOL-Library.Word"
begin

section \<open>Tensors and the graph of operations\<close>

text \<open>
  The program (\<^verbatim>\<open>texture_network.py\<close>) builds a TensorFlow graph and then trains it.
  Every tensor it creates has rank four, in the order batch, height, width, channels
  (the placeholders of \<^verbatim>\<open>input_pyramid\<close> and the reshaped style image), so a static shape
  is a record of four natural numbers.
\<close>

record shape =
  batch :: nat
  height :: nat
  width :: nat
  channels :: nat

text \<open>The exceptions the modelled code can raise while the graph is built or run.\<close>

datatype error = ZeroDivisionError | ValueError | IndexError

text \<open>
  A \<^verbatim>\<open>tf.Variable\<close> initialised by \<^verbatim>\<open>tf.random_uniform(shape, minval, maxval)\<close>:
  its name, the shape of the sample and the two bounds.
\<close>

datatype variable = Variable (var_name: string) (var_shape: "nat list") (minval: real) (maxval: real)

text \<open>
  A tensor is the operation that produces it together with the static shape that shape
  inference gave it when the operation was created (what \<^verbatim>\<open>get_shape()\<close> reads).
  \<^verbatim>\<open>LeakyRelu t alpha\<close> stands for the pair of operations
  \<^verbatim>\<open>tf.maximum(tf.mul(t, alpha), t)\<close> of \<^verbatim>\<open>leaky_relu\<close>. Name scopes only label the
  nodes and are not recorded.
\<close>

datatype tensor = Tensor (producer: op) (get_shape: shape)
and op =
    Placeholder string
  | Constant
  | Conv2D tensor variable variable
  | SpatialBatchNorm tensor "string option"
  | LeakyRelu tensor real
  | ResizeNearestNeighbor tensor nat nat
  | Concat nat "tensor list"

subsection \<open>Library operations\<close>

text \<open>The decimal text of a natural number, as \<^verbatim>\<open>str(x)\<close> and \<^verbatim>\<open>"%d" % x\<close> print it.\<close>

definition digit_char :: "nat \<Rightarrow> char" where
  "digit_char d = ''0123456789'' ! d"

fun format_d :: "nat \<Rightarrow> string" where
  "format_d n = (if n < 10 then [digit_char n] else format_d (n div 10) @ [digit_char (n mod 10)])"

declare format_d.simps [simp del]

definition dims :: "shape \<Rightarrow> nat list" where
  "dims s = [batch s, height s, width s, channels s]"

definition set_dim :: "nat \<Rightarrow> nat \<Rightarrow> shape \<Rightarrow> shape" where
  "set_dim axis v s =
     (if axis = 0 then s\<lparr>batch := v\<rparr>
      else if axis = 1 then s\<lparr>height := v\<rparr>
      else if axis = 2 then s\<lparr>width := v\<rparr>
      else s\<lparr>channels := v\<rparr>)"

text \<open>
  \<^verbatim>\<open>tf.concat(axis, values)\<close> (the argument order of the TensorFlow release the program
  is written for): the values must agree on every dimension other than \<^verbatim>\<open>axis\<close>, and
  the result adds their sizes along \<^verbatim>\<open>axis\<close>. Shape inference raises \<^verbatim>\<open>ValueError\<close>
  otherwise.
\<close>

fun tf_concat :: "nat \<Rightarrow> tensor list \<Rightarrow> error + tensor" where
  "tf_concat axis [] = Inl ValueError"
| "tf_concat axis (t # ts) =
     (if axis < 4 \<and>
         list_all (\<lambda>u. (dims (get_shape u))[axis := 0] = (dims (get_shape t))[axis := 0]) ts
      then Inr (Tensor (Concat axis (t # ts))
                  (set_dim axis (sum_list (map (\<lambda>u. dims (get_shape u) ! axis) (t # ts)))
                     (get_shape t)))
      else Inl ValueError)"

text \<open>
  \<^verbatim>\<open>tf.image.resize_nearest_neighbor(images, size)\<close>: batch and channels of the images,
  height and width from \<^verbatim>\<open>size\<close>.
\<close>

definition resize_nearest_neighbor :: "tensor \<Rightarrow> nat \<times> nat \<Rightarrow> tensor" where
  "resize_nearest_neighbor images size2 =
     Tensor (ResizeNearestNeighbor images (fst size2) (snd size2))
       ((get_shape images)\<lparr>height := fst size2, width := snd size2\<rparr>)"

subsection \<open>The helpers of \<^verbatim>\<open>network_helpers\<close>\<close>

text \<open>
  Modelled from the spec: \<^verbatim>\<open>conv2d\<close> of the module \<^verbatim>\<open>network_helpers\<close>, which is not
  among the sources. The specification (4.2) describes it as a learned convolution, bias
  included, that preserves the spatial dimensions (same-padding) and yields the requested
  number of channels, and counts mismatched channel counts among the errors found when the
  network is constructed (7). The weights have the shape
  \<^verbatim>\<open>[kernel, kernel, in_channels, out_channels]\<close> that \<^verbatim>\<open>conv_block\<close> gives them.
\<close>

definition conv2d :: "tensor \<Rightarrow> variable \<Rightarrow> variable \<Rightarrow> error + tensor" where
  "conv2d input_layer w b =
     (case var_shape w of
        [kh, kw, cin, cout] \<Rightarrow>
          (if cin = channels (get_shape input_layer) \<and> var_shape b = [cout]
           then Inr (Tensor (Conv2D input_layer w b) ((get_shape input_layer)\<lparr>channels := cout\<rparr>))
           else Inl ValueError)
      | _ \<Rightarrow> Inl ValueError)"

text \<open>
  Modelled from the spec: \<^verbatim>\<open>spatial_batch_norm\<close> of the module \<^verbatim>\<open>network_helpers\<close>,
  which is not among the sources. The specification (4.2) describes it as a per-channel
  normalisation over the batch and spatial axes; it keeps the shape of its input. The
  optional second argument is the name the caller passes.
\<close>

definition spatial_batch_norm :: "tensor \<Rightarrow> string option \<Rightarrow> tensor" where
  "spatial_batch_norm input_layer name = Tensor (SpatialBatchNorm input_layer name) (get_shape input_layer)"

section \<open>The functions of \<^verbatim>\<open>texture_network.py\<close>\<close>

definition leaky_relu :: "tensor \<Rightarrow> real \<Rightarrow> tensor" where
  "leaky_relu input_layer alpha = Tensor (LeakyRelu input_layer alpha) (get_shape input_layer)"

text \<open>The value \<^verbatim>\<open>leaky_relu\<close> computes at one element: \<^verbatim>\<open>max(x * alpha, x)\<close>.\<close>

definition leaky_relu_value :: "real \<Rightarrow> real \<Rightarrow> real" where
  "leaky_relu_value x alpha = max (x * alpha) x"

text \<open>
  \<^verbatim>\<open>input_pyramid\<close>: one placeholder per \<^verbatim>\<open>x\<close> in \<^verbatim>\<open>range(k)\<close>, of size
  \<^verbatim>\<open>M // 2**x\<close>, then reversed in place.
\<close>

definition input_pyramid :: "string \<Rightarrow> nat \<Rightarrow> nat \<Rightarrow> nat \<Rightarrow> tensor list" where
  "input_pyramid name M batch_size k =
     rev (map (\<lambda>x. Tensor (Placeholder (format_d x))
                     \<lparr>batch = batch_size, height = M div 2 ^ x, width = M div 2 ^ x, channels = 3\<rparr>)
            [0..<k])"

text \<open>
  \<^verbatim>\<open>noise_pyramid\<close>: one array of \<^verbatim>\<open>np.random.rand\<close> per \<^verbatim>\<open>x\<close> in \<^verbatim>\<open>range(k)\<close>,
  reversed by the slice \<^verbatim>\<open>[::-1]\<close>. The random contents are not modelled: an array is
  represented by its shape.
\<close>

definition noise_pyramid :: "nat \<Rightarrow> nat \<Rightarrow> nat \<Rightarrow> shape list" where
  "noise_pyramid M batch_size k =
     rev (map (\<lambda>x. \<lparr>batch = batch_size, height = M div 2 ^ x, width = M div 2 ^ x, channels = 3\<rparr>)
            [0..<k])"

text \<open>
  \<^verbatim>\<open>conv_block\<close>. The bound of the initialisation divides by
  \<^verbatim>\<open>in_channels + out_channels\<close>: Python raises \<^verbatim>\<open>ZeroDivisionError\<close> when both are zero.
\<close>

definition conv_block :: "string \<Rightarrow> tensor \<Rightarrow> nat \<Rightarrow> nat \<Rightarrow> error + tensor" where
  "conv_block name input_layer kernel_size out_channels =
     (let in_channels = channels (get_shape input_layer) in
      if in_channels + out_channels = 0 then Inl ZeroDivisionError
      else
        let low = - sqrt (6 / real (in_channels + out_channels));
            high = sqrt (6 / real (in_channels + out_channels));
            weights = Variable ''weights'' [kernel_size, kernel_size, in_channels, out_channels] low high;
            biases = Variable ''biases'' [out_channels] low high
        in case conv2d input_layer weights biases of
             Inl e \<Rightarrow> Inl e
           | Inr conv \<Rightarrow> Inr (leaky_relu (spatial_batch_norm conv None) (1 / 100)))"

definition conv_chain :: "string \<Rightarrow> tensor \<Rightarrow> nat \<Rightarrow> error + tensor" where
  "conv_chain name input_layer out_channels =
     (case conv_block ''layer1'' input_layer 3 out_channels of
        Inl e \<Rightarrow> Inl e
      | Inr block1 \<Rightarrow>
          (case conv_block ''layer1'' block1 3 out_channels of
             Inl e \<Rightarrow> Inl e
           | Inr block2 \<Rightarrow> conv_block ''layer1'' block2 1 out_channels))"

definition join_block :: "string \<Rightarrow> tensor \<Rightarrow> tensor \<Rightarrow> error + tensor" where
  "join_block name lower_res_layer higher_res_layer =
     (let upsampled = resize_nearest_neighbor lower_res_layer
                        (height (get_shape higher_res_layer), width (get_shape higher_res_layer));
          batch_norm_lower = spatial_batch_norm upsampled (Some ''normLower'');
          batch_norm_higher = spatial_batch_norm higher_res_layer (Some ''normHigher'')
      in tf_concat 3 [batch_norm_lower, batch_norm_higher])"

subsection \<open>The class \<^verbatim>\<open>TextureNetwork\<close>\<close>

text \<open>The class attributes, which every method reads through \<^verbatim>\<open>self\<close>.\<close>

record config =
  inputDimension :: nat
  channelStepSize :: nat
  batchSize :: nat
  epochs :: nat

definition TextureNetwork_attrs :: config where
  "TextureNetwork_attrs = \<lparr>inputDimension = 224, channelStepSize = 8, batchSize = 1, epochs = 1000\<rparr>"

text \<open>
  The classes and functions of \<^verbatim>\<open>vgg_network\<close> are not among the sources: the call of
  the constructor \<^verbatim>\<open>VGGNetwork\<close> is recorded with its arguments, and the loss with the
  list of pairs handed to \<^verbatim>\<open>style_loss\<close>. The field \<open>net_output\<close> is the attribute
  \<^verbatim>\<open>self.output\<close>.
\<close>

datatype vgg_network = VGGNetwork string tensor nat nat nat

datatype style_loss = StyleLoss vgg_network "(nat \<times> nat) list"

record texture_network =
  noise_inputs :: "tensor list"
  net_output :: tensor
  texture_image :: tensor
  image_vgg :: vgg_network
  loss :: style_loss

text \<open>
  The loop over \<^verbatim>\<open>self.noise_inputs[1:]\<close> in \<^verbatim>\<open>__init__\<close>; its state is
  \<^verbatim>\<open>current_channels\<close> and \<^verbatim>\<open>current_noise_aggregate\<close>.
\<close>

fun level_loop :: "nat \<Rightarrow> nat \<Rightarrow> tensor \<Rightarrow> tensor list \<Rightarrow> error + (nat \<times> tensor)" where
  "level_loop step current_channels current_noise_aggregate [] =
     Inr (current_channels, current_noise_aggregate)"
| "level_loop step current_channels current_noise_aggregate (noise_frame # rest) =
     (case conv_chain (''chain_lower_'' @ format_d current_channels)
             current_noise_aggregate current_channels of
        Inl e \<Rightarrow> Inl e
      | Inr low_res_out \<Rightarrow>
          (case conv_chain ''chain_higher'' noise_frame step of
             Inl e \<Rightarrow> Inl e
           | Inr high_res_out \<Rightarrow>
               (case join_block (''join_'' @ format_d (current_channels + step + step))
                       low_res_out high_res_out of
                  Inl e \<Rightarrow> Inl e
                | Inr joined \<Rightarrow> level_loop step (current_channels + step) joined rest)))"

text \<open>
  \<^verbatim>\<open>__init__\<close>. The style image is \<^verbatim>\<open>load_image(path).reshape((1, 224, 224, 3))\<close>:
  whatever the loader of \<^verbatim>\<open>network_helpers\<close> returns, the constant has this shape
  (reading the file is not modelled).
\<close>

definition TextureNetwork_init :: "config \<Rightarrow> string \<Rightarrow> error + texture_network" where
  "TextureNetwork_init self style_img_path =
     (case input_pyramid ''noise'' (inputDimension self) (batchSize self) 5 of
        [] \<Rightarrow> Inl IndexError
      | first # others \<Rightarrow>
          (case level_loop (channelStepSize self) 8 first others of
             Inl e \<Rightarrow> Inl e
           | Inr (current_channels, current_noise_aggregate) \<Rightarrow>
               (case conv_chain ''output_chain'' current_noise_aggregate current_channels of
                  Inl e \<Rightarrow> Inl e
                | Inr final_chain \<Rightarrow>
                    (case conv_block ''output'' final_chain 1 3 of
                       Inl e \<Rightarrow> Inl e
                     | Inr out \<Rightarrow>
                         (let image = Tensor Constant
                                        \<lparr>batch = 1, height = 224, width = 224, channels = 3\<rparr>
                          in case tf_concat 0 [image, out, out] of
                               Inl e \<Rightarrow> Inl e
                             | Inr images \<Rightarrow>
                                 (let vgg = VGGNetwork ''image_vgg'' images 1 (batchSize self) (batchSize self)
                                  in Inr \<lparr>noise_inputs = input_pyramid ''noise'' (inputDimension self) (batchSize self) 5,
                                          net_output = out,
                                          texture_image = image,
                                          image_vgg = vgg,
                                          loss = StyleLoss vgg (map (\<lambda>i. (i, 1)) [1..<6])\<rparr>))))))"

subsection \<open>Training\<close>

text \<open>
  What a run does to the outside world, in order: the optimiser steps, the checkpoints
  written by \<^verbatim>\<open>saver.save\<close> and the images written by \<^verbatim>\<open>skimage.io.imsave\<close>, each file
  with its path. An image is given by the byte at each position of the flattened array.
\<close>

datatype event = TrainStep nat | SaverSave string | ImSave string "nat \<Rightarrow> 8 word"

text \<open>\<^verbatim>\<open>np.clip(a, a_min, a_max)\<close> at one element.\<close>

definition np_clip :: "real \<Rightarrow> real \<Rightarrow> real \<Rightarrow> real" where
  "np_clip a a_min a_max = min a_max (max a a_min)"

text \<open>
  \<^verbatim>\<open>astype('uint8')\<close> at one element: the conversion drops the fractional part (towards
  zero) and keeps the low eight bits.
\<close>

definition astype_uint8 :: "real \<Rightarrow> 8 word" where
  "astype_uint8 x = word_of_int (if 0 \<le> x then \<lfloor>x\<rfloor> else \<lceil>x\<rceil>)"

text \<open>The expression of line 128 at one element of \<^verbatim>\<open>network_out\<close>.\<close>

definition img_out :: "real \<Rightarrow> 8 word" where
  "img_out v = astype_uint8 (np_clip (v * 255) 0 255)"

text \<open>
  The inner loop of \<^verbatim>\<open>run_train\<close>: \<^verbatim>\<open>feed_dict[noise_frame] = noise[index]\<close> for each
  placeholder in turn (an index beyond the noise list raises \<^verbatim>\<open>IndexError\<close>).
\<close>

fun bind_feeds :: "tensor list \<Rightarrow> shape list \<Rightarrow> nat \<Rightarrow> error + (tensor \<times> shape) list" where
  "bind_feeds [] noise index = Inr []"
| "bind_feeds (noise_frame # rest) noise index =
     (if index < length noise
      then (case bind_feeds rest noise (Suc index) of
              Inl e \<Rightarrow> Inl e
            | Inr feed_dict \<Rightarrow> Inr ((noise_frame, noise ! index) # feed_dict))
      else Inl IndexError)"

text \<open>
  Running an operation with a feed raises \<^verbatim>\<open>ValueError\<close> unless every array has the
  shape of the placeholder it is bound to.
\<close>

definition feed_compatible :: "(tensor \<times> shape) list \<Rightarrow> bool" where
  "feed_compatible feed_dict = list_all (\<lambda>(t, a). get_shape t = a) feed_dict"

definition numel :: "shape \<Rightarrow> nat" where
  "numel s = batch s * height s * width s * channels s"

text \<open>
  One pass of the loop body of \<^verbatim>\<open>run_train\<close> at step \<^verbatim>\<open>i\<close>: the events it causes and
  the exception that ended it, if any. \<^verbatim>\<open>out_value i p\<close> is the value of element \<^verbatim>\<open>p\<close>
  of \<^verbatim>\<open>self.output\<close> that the session computes at step \<^verbatim>\<open>i\<close>; it depends on the learned
  parameters and is a parameter of the model. The \<^verbatim>\<open>reshape((224, 224, 3))\<close> raises
  \<^verbatim>\<open>ValueError\<close> unless the output has as many elements.
\<close>

definition train_iteration ::
    "config \<Rightarrow> texture_network \<Rightarrow> (nat \<Rightarrow> nat \<Rightarrow> real) \<Rightarrow> nat \<Rightarrow> event list \<times> error option" where
  "train_iteration self net out_value i =
     (case bind_feeds (noise_inputs net) (noise_pyramid (inputDimension self) (batchSize self) 5) 0 of
        Inl e \<Rightarrow> ([], Some e)
      | Inr feed_dict \<Rightarrow>
          (if \<not> feed_compatible feed_dict then ([], Some ValueError)
           else if 0 < i \<and> i mod 20 = 0 then
             (if numel (get_shape (net_output net)) = 224 * 224 * 3
              then ([TrainStep i,
                     SaverSave (''models/snapshot-'' @ format_d i @ ''.ckpt''),
                     ImSave (''img/aa-iteration-'' @ format_d i @ ''.jpeg'') (\<lambda>p. img_out (out_value i p))],
                    None)
              else ([TrainStep i, SaverSave (''models/snapshot-'' @ format_d i @ ''.ckpt'')],
                    Some ValueError))
           else ([TrainStep i], None)))"

fun train_loop ::
    "config \<Rightarrow> texture_network \<Rightarrow> (nat \<Rightarrow> nat \<Rightarrow> real) \<Rightarrow> nat list \<Rightarrow> event list \<times> error option" where
  "train_loop self net out_value [] = ([], None)"
| "train_loop self net out_value (i # steps) =
     (case train_iteration self net out_value i of
        (evs, Some e) \<Rightarrow> (evs, Some e)
      | (evs, None) \<Rightarrow>
          (case train_loop self net out_value steps of (later, r) \<Rightarrow> (evs @ later, r)))"

definition run_train :: "config \<Rightarrow> texture_network \<Rightarrow> (nat \<Rightarrow> nat \<Rightarrow> real) \<Rightarrow> event list \<times> error option" where
  "run_train self net out_value = train_loop self net out_value [0..<epochs self]"

text \<open>The two statements at the end of the module: construct the network, then train it.\<close>

definition main :: "config \<Rightarrow> (nat \<Rightarrow> nat \<Rightarrow> real) \<Rightarrow> event list \<times> error option" where
  "main self out_value =
     (case TextureNetwork_init self ''img/style.jpg'' of
        Inl e \<Rightarrow> ([], Some e)
      | Inr t \<Rightarrow> run_train self t out_value)"

text \<open>The paths of the checkpoints and of the images in a trace.\<close>

fun checkpoint_files :: "event list \<Rightarrow> string list" where
  "checkpoint_files [] = []"
| "checkpoint_files (SaverSave path # evs) = path # checkpoint_files evs"
| "checkpoint_files (_ # evs) = checkpoint_files evs"

fun image_files :: "event list \<Rightarrow> string list" where
  "image_files [] = []"
| "image_files (ImSave path px # evs) = path # image_files evs"
| "image_files (_ # evs) = image_files evs"

fun train_steps :: "event list \<Rightarrow> nat list" where
  "train_steps [] = []"
| "train_steps (TrainStep i # evs) = i # train_steps evs"
| "train_steps (_ # evs) = train_steps evs"

fun image_pixels :: "event list \<Rightarrow> (nat \<Rightarrow> 8 word) list" where
  "image_pixels [] = []"
| "image_pixels (ImSave path px # evs) = px # image_pixels evs"
| "image_pixels (_ # evs) = image_pixels evs"

text \<open>A run in which the network's output is zero at every step and position.\<close>

definition black_output :: "nat \<Rightarrow> nat \<Rightarrow> real" where
  "black_output i p = 0"

section \<open>The specification's convolutional block\<close>

text \<open>
  The specification (4.2) describes a convolutional block as three operations on top of
  its input: a convolution with the block's own weights and biases, a batch
  normalisation and a leaky rectification with slope 0.01, each of the input's batch and
  spatial size and with as many channels as the weights produce. \<open>block_graph x w b\<close> is
  that graph; the theorems compare what \<^verbatim>\<open>conv_block\<close> builds with it.
\<close>

definition block_graph :: "tensor \<Rightarrow> variable \<Rightarrow> variable \<Rightarrow> tensor" where
  "block_graph x w b =
     (let s = (get_shape x)\<lparr>channels := last (var_shape w)\<rparr>
      in Tensor (LeakyRelu (Tensor (SpatialBatchNorm (Tensor (Conv2D x w b) s) None) s) (1 / 100)) s)"

section \<open>Blocks, chains and joins\<close>

lemma get_shape_block_graph:
  "get_shape (block_graph x w b) = (get_shape x)\<lparr>channels := last (var_shape w)\<rparr>"
  by (simp add: block_graph_def Let_def)

lemma conv_block_eq:
  assumes "0 < channels (get_shape x) + c"
  shows "conv_block n x k c =
           Inr (block_graph x
                  (Variable ''weights'' [k, k, channels (get_shape x), c]
                     (- sqrt (6 / real (channels (get_shape x) + c)))
                     (sqrt (6 / real (channels (get_shape x) + c))))
                  (Variable ''biases'' [c]
                     (- sqrt (6 / real (channels (get_shape x) + c)))
                     (sqrt (6 / real (channels (get_shape x) + c)))))"
  using assms
  by (simp add: conv_block_def conv2d_def Let_def block_graph_def leaky_relu_def spatial_batch_norm_def)

lemma conv_block_ok:
  assumes "0 < channels (get_shape x) + c"
  shows "\<exists>w b. conv_block n x k c = Inr (block_graph x w b) \<and>
               var_shape w = [k, k, channels (get_shape x), c] \<and> var_shape b = [c]"
  using conv_block_eq [OF assms] by fastforce

lemma conv_block_zero:
  "channels (get_shape x) = 0 \<Longrightarrow> conv_block n x k 0 = Inl ZeroDivisionError"
  by (simp add: conv_block_def)

lemma conv_chain_ok:
  assumes "0 < c"
  shows "\<exists>w1 b1 w2 b2 w3 b3.
           conv_chain n x c = Inr (block_graph (block_graph (block_graph x w1 b1) w2 b2) w3 b3) \<and>
           var_shape w1 = [3, 3, channels (get_shape x), c] \<and> var_shape b1 = [c] \<and>
           var_shape w2 = [3, 3, c, c] \<and> var_shape b2 = [c] \<and>
           var_shape w3 = [1, 1, c, c] \<and> var_shape b3 = [c]"
proof -
  from assms have "0 < channels (get_shape x) + c" by simp
  from conv_block_ok [OF this, of "''layer1''" 3]
  obtain w1 b1 where 1: "conv_block ''layer1'' x 3 c = Inr (block_graph x w1 b1)"
    and s1: "var_shape w1 = [3, 3, channels (get_shape x), c]" "var_shape b1 = [c]" by blast
  have c1: "channels (get_shape (block_graph x w1 b1)) = c"
    by (simp add: get_shape_block_graph s1)
  from assms c1 have "0 < channels (get_shape (block_graph x w1 b1)) + c" by simp
  from conv_block_ok [OF this, of "''layer1''" 3]
  obtain w2 b2 where 2: "conv_block ''layer1'' (block_graph x w1 b1) 3 c = Inr (block_graph (block_graph x w1 b1) w2 b2)"
    and s2: "var_shape w2 = [3, 3, c, c]" "var_shape b2 = [c]" using c1 by auto
  have c2: "channels (get_shape (block_graph (block_graph x w1 b1) w2 b2)) = c"
    by (simp add: get_shape_block_graph s2)
  from assms c2 have "0 < channels (get_shape (block_graph (block_graph x w1 b1) w2 b2)) + c" by simp
  from conv_block_ok [OF this, of "''layer1''" 1]
  obtain w3 b3 where 3: "conv_block ''layer1'' (block_graph (block_graph x w1 b1) w2 b2) 1 c =
       Inr (block_graph (block_graph (block_graph x w1 b1) w2 b2) w3 b3)"
    and s3: "var_shape w3 = [1, 1, c, c]" "var_shape b3 = [c]" using c2 by auto
  have "conv_chain n x c = Inr (block_graph (block_graph (block_graph x w1 b1) w2 b2) w3 b3)"
    unfolding conv_chain_def by (simp only: 1 2 3 sum.case)
  with s1 s2 s3 show ?thesis by blast
qed

lemma conv_chain_shape:
  assumes "0 < c"
  shows "\<exists>y. conv_chain n x c = Inr y \<and> get_shape y = (get_shape x)\<lparr>channels := c\<rparr>"
proof -
  from conv_chain_ok [OF assms, of n x] obtain w1 b1 w2 b2 w3 b3 where
    e: "conv_chain n x c = Inr (block_graph (block_graph (block_graph x w1 b1) w2 b2) w3 b3)"
    and s: "var_shape w3 = [1, 1, c, c]" by blast
  have "get_shape (block_graph (block_graph (block_graph x w1 b1) w2 b2) w3 b3) = (get_shape x)\<lparr>channels := c\<rparr>"
    by (simp add: get_shape_block_graph s)
  with e show ?thesis by blast
qed

lemma conv_chain_zero: "conv_chain n x 0 = Inl ZeroDivisionError"
proof (cases "conv_block ''layer1'' x 3 0")
  case (Inl e)
  then have "e = ZeroDivisionError"
    by (auto simp: conv_block_def conv2d_def Let_def split: if_splits)
  with Inl show ?thesis by (simp add: conv_chain_def)
next
  case (Inr b1)
  then have "channels (get_shape b1) = 0"
    by (auto simp: conv_block_def conv2d_def Let_def leaky_relu_def spatial_batch_norm_def split: if_splits)
  then have "conv_block ''layer1'' b1 3 0 = Inl ZeroDivisionError" by (rule conv_block_zero)
  with Inr show ?thesis by (simp add: conv_chain_def)
qed

lemma join_block_eq:
  assumes "batch (get_shape lo) = batch (get_shape hi)"
  shows "join_block n lo hi =
     Inr (Tensor
            (Concat 3
               [Tensor (SpatialBatchNorm
                          (Tensor (ResizeNearestNeighbor lo (height (get_shape hi)) (width (get_shape hi)))
                             ((get_shape lo)\<lparr>height := height (get_shape hi), width := width (get_shape hi)\<rparr>))
                          (Some ''normLower''))
                  ((get_shape lo)\<lparr>height := height (get_shape hi), width := width (get_shape hi)\<rparr>),
                Tensor (SpatialBatchNorm hi (Some ''normHigher'')) (get_shape hi)])
            ((get_shape hi)\<lparr>channels := channels (get_shape lo) + channels (get_shape hi)\<rparr>))"
  using assms
  by (simp add: join_block_def resize_nearest_neighbor_def spatial_batch_norm_def dims_def set_dim_def Let_def)

lemma join_block_mismatch:
  assumes "batch (get_shape lo) \<noteq> batch (get_shape hi)"
  shows "join_block n lo hi = Inl ValueError"
  using assms
  by (simp add: join_block_def resize_nearest_neighbor_def spatial_batch_norm_def dims_def set_dim_def Let_def)


section \<open>The pyramids\<close>

lemma rev_map_upt_nth:
  assumes "j < k"
  shows "rev (map f [0..<k]) ! j = f (k - 1 - j)"
  using assms by (simp add: rev_nth)

lemma length_noise_pyramid: "length (noise_pyramid M B k) = k"
  by (simp add: noise_pyramid_def)

lemma length_input_pyramid: "length (input_pyramid name M B k) = k"
  by (simp add: input_pyramid_def)

lemma noise_pyramid_nth:
  assumes "j < k"
  shows "noise_pyramid M B k ! j =
           \<lparr>batch = B, height = M div 2 ^ (k - 1 - j), width = M div 2 ^ (k - 1 - j), channels = 3\<rparr>"
  unfolding noise_pyramid_def using assms by (simp only: rev_map_upt_nth)

lemma input_pyramid_nth:
  assumes "j < k"
  shows "input_pyramid name M B k ! j =
           Tensor (Placeholder (format_d (k - 1 - j)))
             \<lparr>batch = B, height = M div 2 ^ (k - 1 - j), width = M div 2 ^ (k - 1 - j), channels = 3\<rparr>"
  unfolding input_pyramid_def using assms by (simp only: rev_map_upt_nth)

lemma map_get_shape_input_pyramid:
  "map get_shape (input_pyramid name M B k) = noise_pyramid M B k"
  by (simp add: input_pyramid_def noise_pyramid_def rev_map comp_def)

lemma input_pyramid_Suc:
  "input_pyramid name M B (Suc k) =
     Tensor (Placeholder (format_d k)) \<lparr>batch = B, height = M div 2 ^ k, width = M div 2 ^ k, channels = 3\<rparr>
       # input_pyramid name M B k"
  by (simp add: input_pyramid_def)

lemma input_pyramid_all:
  "list_all (\<lambda>t. batch (get_shape t) = B \<and> channels (get_shape t) = 3) (input_pyramid name M B k)"
  by (simp add: input_pyramid_def list_all_iff)

lemma exact_div_pow2:
  fixes q :: nat
  assumes "e \<le> a"
  shows "(2 ^ a * q) div 2 ^ e = 2 ^ (a - e) * q"
proof -
  from assms have "(2::nat) ^ a = 2 ^ (a - e) * 2 ^ e"
    by (simp add: power_add [symmetric])
  then have "(2::nat) ^ a * q = (2 ^ (a - e) * q) * 2 ^ e" by (simp only: mult_ac)
  then have "(2 ^ a * q) div 2 ^ e = ((2 ^ (a - e) * q) * 2 ^ e) div 2 ^ e" by (simp only:)
  also have "\<dots> = 2 ^ (a - e) * q" by (rule nonzero_mult_div_cancel_right) simp
  finally show ?thesis .
qed

lemma pyramid_sizes_increasing:
  assumes "0 < (M::nat)" and "2 ^ (K - 1) dvd M" and "i < j" and "j < K"
  shows "M div 2 ^ (K - 1 - i) < M div 2 ^ (K - 1 - j)"
proof -
  from assms(2) obtain q where q: "M = 2 ^ (K - 1) * q" by (auto simp: dvd_def)
  with assms(1) have qpos: "0 < q" by (cases q) auto
  have "M div 2 ^ (K - 1 - i) = 2 ^ i * q"
    using assms(3,4) by (simp add: q exact_div_pow2)
  moreover have "M div 2 ^ (K - 1 - j) = 2 ^ j * q"
    using assms(4) by (simp add: q exact_div_pow2)
  moreover have "(2::nat) ^ i < 2 ^ j" using assms(3) by simp
  ultimately show ?thesis using qpos by simp
qed

lemma pyramid_sizes_exact:
  assumes "2 ^ (K - 1) dvd (M::nat)" and "j < K"
  shows "2 ^ (K - 1 - j) * (M div 2 ^ (K - 1 - j)) = M"
proof -
  have "(2::nat) ^ (K - 1 - j) dvd 2 ^ (K - 1)" by (rule le_imp_power_dvd) simp
  then have "(2::nat) ^ (K - 1 - j) dvd M" using assms(1) by (rule dvd_trans)
  then show ?thesis by simp
qed


section \<open>The loop over the levels\<close>

lemma level_step:
  assumes "0 < step" and "0 < cc" and "batch (get_shape frame) = batch (get_shape agg)"
  shows "\<exists>low high joined.
           conv_chain (''chain_lower_'' @ format_d cc) agg cc = Inr low \<and>
           get_shape low = (get_shape agg)\<lparr>channels := cc\<rparr> \<and>
           conv_chain ''chain_higher'' frame step = Inr high \<and>
           get_shape high = (get_shape frame)\<lparr>channels := step\<rparr> \<and>
           join_block (''join_'' @ format_d (cc + step + step)) low high = Inr joined \<and>
           get_shape joined = (get_shape frame)\<lparr>channels := cc + step\<rparr> \<and>
           level_loop step cc agg (frame # rest) = level_loop step (cc + step) joined rest"
proof -
  from conv_chain_shape [OF assms(2)] obtain low where
    low: "conv_chain (''chain_lower_'' @ format_d cc) agg cc = Inr low"
         "get_shape low = (get_shape agg)\<lparr>channels := cc\<rparr>" by blast
  from conv_chain_shape [OF assms(1)] obtain high where
    high: "conv_chain ''chain_higher'' frame step = Inr high"
          "get_shape high = (get_shape frame)\<lparr>channels := step\<rparr>" by blast
  have b: "batch (get_shape low) = batch (get_shape high)"
    using assms(3) by (simp add: low(2) high(2))
  define joined where "joined = Tensor
            (Concat 3
               [Tensor (SpatialBatchNorm
                          (Tensor (ResizeNearestNeighbor low (height (get_shape high)) (width (get_shape high)))
                             ((get_shape low)\<lparr>height := height (get_shape high), width := width (get_shape high)\<rparr>))
                          (Some ''normLower''))
                  ((get_shape low)\<lparr>height := height (get_shape high), width := width (get_shape high)\<rparr>),
                Tensor (SpatialBatchNorm high (Some ''normHigher'')) (get_shape high)])
            ((get_shape high)\<lparr>channels := channels (get_shape low) + channels (get_shape high)\<rparr>)"
  have j: "join_block (''join_'' @ format_d (cc + step + step)) low high = Inr joined"
    unfolding joined_def by (rule join_block_eq [OF b])
  have js: "get_shape joined = (get_shape frame)\<lparr>channels := cc + step\<rparr>"
    by (simp add: joined_def low(2) high(2))
  have "level_loop step cc agg (frame # rest) = level_loop step (cc + step) joined rest"
    by (simp only: level_loop.simps low(1) high(1) j sum.case)
  with low high j js show ?thesis by blast
qed

lemma level_loop_append:
  "level_loop step cc agg (xs @ ys) =
     (case level_loop step cc agg xs of
        Inl e \<Rightarrow> Inl e
      | Inr (cc', agg') \<Rightarrow> level_loop step cc' agg' ys)"
  by (induction xs arbitrary: cc agg) (auto split: sum.splits)

lemma level_loop_ok:
  assumes "0 < step" and "0 < cc"
    and "list_all (\<lambda>f. batch (get_shape f) = batch (get_shape agg)) frames"
  shows "\<exists>agg'. level_loop step cc agg frames = Inr (cc + step * length frames, agg') \<and>
           get_shape agg' =
             (if frames = [] then get_shape agg
              else (get_shape (last frames))\<lparr>channels := cc + step * length frames\<rparr>)"
  using assms
proof (induction frames arbitrary: cc agg)
  case Nil
  then show ?case by simp
next
  case (Cons frame rest)
  from Cons.prems have fb: "batch (get_shape frame) = batch (get_shape agg)" by simp
  from level_step [OF Cons.prems(1,2) fb, of rest] obtain joined where
    js: "get_shape joined = (get_shape frame)\<lparr>channels := cc + step\<rparr>"
    and st: "level_loop step cc agg (frame # rest) = level_loop step (cc + step) joined rest"
    by blast
  have pos: "0 < cc + step" using Cons.prems(2) by simp
  have all: "list_all (\<lambda>f. batch (get_shape f) = batch (get_shape joined)) rest"
    using Cons.prems(3) fb by (simp add: js)
  from Cons.IH [OF Cons.prems(1) pos all] obtain agg' where
    r: "level_loop step (cc + step) joined rest = Inr (cc + step + step * length rest, agg')"
    and s: "get_shape agg' =
             (if rest = [] then get_shape joined
              else (get_shape (last rest))\<lparr>channels := cc + step + step * length rest\<rparr>)"
    by blast
  have "level_loop step cc agg (frame # rest) = Inr (cc + step * length (frame # rest), agg')"
    using st r by (simp add: add.assoc)
  moreover have "get_shape agg' = (get_shape (last (frame # rest)))\<lparr>channels := cc + step * length (frame # rest)\<rparr>"
    using s js by (simp add: add.assoc)
  ultimately show ?case by auto
qed


lemma input_pyramid_5:
  "input_pyramid name M B 5 =
     Tensor (Placeholder (format_d 4)) \<lparr>batch = B, height = M div 2 ^ 4, width = M div 2 ^ 4, channels = 3\<rparr>
       # input_pyramid name M B 4"
proof -
  have "(5::nat) = Suc 4" by simp
  then show ?thesis by (simp only: input_pyramid_Suc)
qed

lemma last_input_pyramid:
  "last (input_pyramid name M B (Suc k)) =
     Tensor (Placeholder (format_d 0)) \<lparr>batch = B, height = M, width = M, channels = 3\<rparr>"
  by (simp add: input_pyramid_def last_rev upt_conv_Cons del: upt_Suc)

lemma generator_levels:
  assumes "0 < step"
  shows "\<exists>agg. level_loop step 8
                 (Tensor (Placeholder (format_d 4))
                    \<lparr>batch = B, height = M div 2 ^ 4, width = M div 2 ^ 4, channels = 3\<rparr>)
                 (input_pyramid ''noise'' M B 4) = Inr (8 + step * 4, agg) \<and>
               get_shape agg = \<lparr>batch = B, height = M, width = M, channels = 8 + step * 4\<rparr>"
proof -
  let ?first = "Tensor (Placeholder (format_d 4))
                    \<lparr>batch = B, height = M div 2 ^ 4, width = M div 2 ^ 4, channels = 3\<rparr>"
  have all: "list_all (\<lambda>f. batch (get_shape f) = batch (get_shape ?first)) (input_pyramid ''noise'' M B 4)"
    by (simp add: input_pyramid_def list_all_iff)
  have ne: "input_pyramid ''noise'' M B 4 \<noteq> []"
    using length_input_pyramid [of "''noise''" M B 4] by auto
  have l: "last (input_pyramid ''noise'' M B 4) =
     Tensor (Placeholder (format_d 0)) \<lparr>batch = B, height = M, width = M, channels = 3\<rparr>"
    using last_input_pyramid [of "''noise''" M B 3] by (simp add: eval_nat_numeral)
  from level_loop_ok [OF assms _ all, of 8] obtain agg where
    r: "level_loop step 8 ?first (input_pyramid ''noise'' M B 4) =
          Inr (8 + step * length (input_pyramid ''noise'' M B 4), agg)"
    and s: "get_shape agg =
             (if input_pyramid ''noise'' M B 4 = [] then get_shape ?first
              else (get_shape (last (input_pyramid ''noise'' M B 4)))
                     \<lparr>channels := 8 + step * length (input_pyramid ''noise'' M B 4)\<rparr>)"
    by auto
  from r have "level_loop step 8 ?first (input_pyramid ''noise'' M B 4) = Inr (8 + step * 4, agg)"
    by (simp add: length_input_pyramid)
  moreover from s ne l have "get_shape agg = \<lparr>batch = B, height = M, width = M, channels = 8 + step * 4\<rparr>"
    by (simp add: length_input_pyramid)
  ultimately show ?thesis by blast
qed

lemma generator_output:
  assumes "0 < channelStepSize self"
  shows "\<exists>agg final_chain w b.
           level_loop (channelStepSize self) 8
               (Tensor (Placeholder (format_d 4))
                  \<lparr>batch = batchSize self, height = inputDimension self div 2 ^ 4,
                     width = inputDimension self div 2 ^ 4, channels = 3\<rparr>)
               (input_pyramid ''noise'' (inputDimension self) (batchSize self) 4)
             = Inr (8 + channelStepSize self * 4, agg) \<and>
           get_shape agg = \<lparr>batch = batchSize self, height = inputDimension self,
                              width = inputDimension self, channels = 8 + channelStepSize self * 4\<rparr> \<and>
           conv_chain ''output_chain'' agg (8 + channelStepSize self * 4) = Inr final_chain \<and>
           get_shape final_chain = get_shape agg \<and>
           conv_block ''output'' final_chain 1 3 = Inr (block_graph final_chain w b) \<and>
           var_shape w = [1, 1, 8 + channelStepSize self * 4, 3] \<and> var_shape b = [3] \<and>
           TextureNetwork_init self style_img_path =
             (case tf_concat 0 [Tensor Constant \<lparr>batch = 1, height = 224, width = 224, channels = 3\<rparr>,
                                block_graph final_chain w b, block_graph final_chain w b] of
                Inl e \<Rightarrow> Inl e
              | Inr images \<Rightarrow>
                  Inr \<lparr>noise_inputs = input_pyramid ''noise'' (inputDimension self) (batchSize self) 5,
                       net_output = block_graph final_chain w b,
                       texture_image = Tensor Constant \<lparr>batch = 1, height = 224, width = 224, channels = 3\<rparr>,
                       image_vgg = VGGNetwork ''image_vgg'' images 1 (batchSize self) (batchSize self),
                       loss = StyleLoss (VGGNetwork ''image_vgg'' images 1 (batchSize self) (batchSize self))
                                (map (\<lambda>i. (i, 1)) [1..<6])\<rparr>)"
proof -
  from generator_levels [OF assms, of "batchSize self" "inputDimension self"] obtain agg where
    lv: "level_loop (channelStepSize self) 8
               (Tensor (Placeholder (format_d 4))
                  \<lparr>batch = batchSize self, height = inputDimension self div 2 ^ 4,
                     width = inputDimension self div 2 ^ 4, channels = 3\<rparr>)
               (input_pyramid ''noise'' (inputDimension self) (batchSize self) 4)
             = Inr (8 + channelStepSize self * 4, agg)"
    and sa: "get_shape agg = \<lparr>batch = batchSize self, height = inputDimension self,
                              width = inputDimension self, channels = 8 + channelStepSize self * 4\<rparr>"
    by blast
  have "0 < 8 + channelStepSize self * 4" by simp
  from conv_chain_shape [OF this, of "''output_chain''" agg] obtain final_chain where
    fc: "conv_chain ''output_chain'' agg (8 + channelStepSize self * 4) = Inr final_chain"
    and sf: "get_shape final_chain = get_shape agg" using sa by auto
  have "0 < channels (get_shape final_chain) + 3" by simp
  from conv_block_ok [OF this, of "''output''" 1] obtain w b where
    ob: "conv_block ''output'' final_chain 1 3 = Inr (block_graph final_chain w b)"
    and sw: "var_shape w = [1, 1, 8 + channelStepSize self * 4, 3]" "var_shape b = [3]"
    using sf sa by auto
  have "TextureNetwork_init self style_img_path =
             (case tf_concat 0 [Tensor Constant \<lparr>batch = 1, height = 224, width = 224, channels = 3\<rparr>,
                                block_graph final_chain w b, block_graph final_chain w b] of
                Inl e \<Rightarrow> Inl e
              | Inr images \<Rightarrow>
                  Inr \<lparr>noise_inputs = input_pyramid ''noise'' (inputDimension self) (batchSize self) 5,
                       net_output = block_graph final_chain w b,
                       texture_image = Tensor Constant \<lparr>batch = 1, height = 224, width = 224, channels = 3\<rparr>,
                       image_vgg = VGGNetwork ''image_vgg'' images 1 (batchSize self) (batchSize self),
                       loss = StyleLoss (VGGNetwork ''image_vgg'' images 1 (batchSize self) (batchSize self))
                                (map (\<lambda>i. (i, 1)) [1..<6])\<rparr>)"
    unfolding TextureNetwork_init_def
    by (simp only: input_pyramid_5 list.case lv sum.case prod.case fc ob Let_def)
  with lv sa fc sf ob sw show ?thesis by blast
qed


lemma concat_style_image:
  assumes "get_shape out = \<lparr>batch = B, height = M, width = M, channels = 3\<rparr>"
  shows "tf_concat 0 [Tensor Constant \<lparr>batch = 1, height = 224, width = 224, channels = 3\<rparr>, out, out] =
           (if M = 224
            then Inr (Tensor (Concat 0 [Tensor Constant \<lparr>batch = 1, height = 224, width = 224, channels = 3\<rparr>, out, out])
                        \<lparr>batch = 1 + B + B, height = 224, width = 224, channels = 3\<rparr>)
            else Inl ValueError)"
  using assms by (simp add: dims_def set_dim_def)

lemma init_ok:
  assumes "0 < channelStepSize self" and "inputDimension self = 224"
  shows "\<exists>out images.
           TextureNetwork_init self style_img_path =
             Inr \<lparr>noise_inputs = input_pyramid ''noise'' 224 (batchSize self) 5,
                  net_output = out,
                  texture_image = Tensor Constant \<lparr>batch = 1, height = 224, width = 224, channels = 3\<rparr>,
                  image_vgg = VGGNetwork ''image_vgg'' images 1 (batchSize self) (batchSize self),
                  loss = StyleLoss (VGGNetwork ''image_vgg'' images 1 (batchSize self) (batchSize self))
                           (map (\<lambda>i. (i, 1)) [1..<6])\<rparr> \<and>
           get_shape out = \<lparr>batch = batchSize self, height = 224, width = 224, channels = 3\<rparr> \<and>
           images = Tensor (Concat 0 [Tensor Constant \<lparr>batch = 1, height = 224, width = 224, channels = 3\<rparr>, out, out])
                      \<lparr>batch = 1 + batchSize self + batchSize self, height = 224, width = 224, channels = 3\<rparr>"
proof -
  from generator_output [OF assms(1), of style_img_path] obtain final_chain w b where
    sf: "get_shape final_chain = \<lparr>batch = batchSize self, height = inputDimension self,
                              width = inputDimension self, channels = 8 + channelStepSize self * 4\<rparr>"
    and sw: "var_shape w = [1, 1, 8 + channelStepSize self * 4, 3]"
    and i: "TextureNetwork_init self style_img_path =
             (case tf_concat 0 [Tensor Constant \<lparr>batch = 1, height = 224, width = 224, channels = 3\<rparr>,
                                block_graph final_chain w b, block_graph final_chain w b] of
                Inl e \<Rightarrow> Inl e
              | Inr images \<Rightarrow>
                  Inr \<lparr>noise_inputs = input_pyramid ''noise'' (inputDimension self) (batchSize self) 5,
                       net_output = block_graph final_chain w b,
                       texture_image = Tensor Constant \<lparr>batch = 1, height = 224, width = 224, channels = 3\<rparr>,
                       image_vgg = VGGNetwork ''image_vgg'' images 1 (batchSize self) (batchSize self),
                       loss = StyleLoss (VGGNetwork ''image_vgg'' images 1 (batchSize self) (batchSize self))
                                (map (\<lambda>i. (i, 1)) [1..<6])\<rparr>)"
    by auto
  have so: "get_shape (block_graph final_chain w b) =
              \<lparr>batch = batchSize self, height = 224, width = 224, channels = 3\<rparr>"
    by (simp add: get_shape_block_graph sf sw assms(2))
  show ?thesis
    unfolding i concat_style_image [OF so] using so by (simp add: assms(2))
qed

lemma init_fail:
  assumes "0 < channelStepSize self" and "inputDimension self \<noteq> 224"
  shows "TextureNetwork_init self style_img_path = Inl ValueError"
proof -
  from generator_output [OF assms(1), of style_img_path] obtain final_chain w b where
    sf: "get_shape final_chain = \<lparr>batch = batchSize self, height = inputDimension self,
                              width = inputDimension self, channels = 8 + channelStepSize self * 4\<rparr>"
    and sw: "var_shape w = [1, 1, 8 + channelStepSize self * 4, 3]"
    and i: "TextureNetwork_init self style_img_path =
             (case tf_concat 0 [Tensor Constant \<lparr>batch = 1, height = 224, width = 224, channels = 3\<rparr>,
                                block_graph final_chain w b, block_graph final_chain w b] of
                Inl e \<Rightarrow> Inl e
              | Inr images \<Rightarrow>
                  Inr \<lparr>noise_inputs = input_pyramid ''noise'' (inputDimension self) (batchSize self) 5,
                       net_output = block_graph final_chain w b,
                       texture_image = Tensor Constant \<lparr>batch = 1, height = 224, width = 224, channels = 3\<rparr>,
                       image_vgg = VGGNetwork ''image_vgg'' images 1 (batchSize self) (batchSize self),
                       loss = StyleLoss (VGGNetwork ''image_vgg'' images 1 (batchSize self) (batchSize self))
                                (map (\<lambda>i. (i, 1)) [1..<6])\<rparr>)"
    by auto
  have so: "get_shape (block_graph final_chain w b) =
              \<lparr>batch = batchSize self, height = inputDimension self, width = inputDimension self, channels = 3\<rparr>"
    by (simp add: get_shape_block_graph sf sw)
  show ?thesis
    unfolding i concat_style_image [OF so] using assms(2) by simp
qed

section \<open>The training loop\<close>

lemma bind_feeds_zip:
  assumes "index + length xs \<le> length noise"
  shows "bind_feeds xs noise index = Inr (zip xs (drop index noise))"
  using assms
proof (induction xs arbitrary: index)
  case Nil
  then show ?case by simp
next
  case (Cons x xs)
  then have lt: "index < length noise" by simp
  from Cons.prems have "Suc index + length xs \<le> length noise" by simp
  from Cons.IH [OF this] have r: "bind_feeds xs noise (Suc index) = Inr (zip xs (drop (Suc index) noise))" .
  have "drop index noise = noise ! index # drop (Suc index) noise"
    using lt by (simp add: Cons_nth_drop_Suc)
  then show ?case using lt r by simp
qed

lemma feed_compatible_zip:
  "feed_compatible (zip xs (map get_shape xs))"
  by (induction xs) (simp_all add: feed_compatible_def)

lemma pyramid_feed:
  "bind_feeds (input_pyramid name M B k) (noise_pyramid M B k) 0 =
     Inr (zip (input_pyramid name M B k) (noise_pyramid M B k)) \<and>
   feed_compatible (zip (input_pyramid name M B k) (noise_pyramid M B k))"
proof -
  have "bind_feeds (input_pyramid name M B k) (noise_pyramid M B k) 0 =
     Inr (zip (input_pyramid name M B k) (drop 0 (noise_pyramid M B k)))"
    by (rule bind_feeds_zip) (simp add: length_input_pyramid length_noise_pyramid)
  moreover have "feed_compatible (zip (input_pyramid name M B k) (noise_pyramid M B k))"
    using feed_compatible_zip [of "input_pyramid name M B k"]
    by (simp only: map_get_shape_input_pyramid)
  ultimately show ?thesis by simp
qed


lemma checkpoint_files_append:
  "checkpoint_files (xs @ ys) = checkpoint_files xs @ checkpoint_files ys"
  by (induction xs rule: checkpoint_files.induct) simp_all

lemma image_files_append:
  "image_files (xs @ ys) = image_files xs @ image_files ys"
  by (induction xs rule: image_files.induct) simp_all

lemma image_pixels_append:
  "image_pixels (xs @ ys) = image_pixels xs @ image_pixels ys"
  by (induction xs rule: image_pixels.induct) simp_all

lemma train_steps_append:
  "train_steps (xs @ ys) = train_steps xs @ train_steps ys"
  by (induction xs rule: train_steps.induct) simp_all

lemma train_iteration_ok:
  assumes "noise_inputs net = input_pyramid ''noise'' (inputDimension self) (batchSize self) 5"
    and "numel (get_shape (net_output net)) = 224 * 224 * 3"
  shows "train_iteration self net out_value i =
           (if 0 < i \<and> i mod 20 = 0
            then [TrainStep i,
                  SaverSave (''models/snapshot-'' @ format_d i @ ''.ckpt''),
                  ImSave (''img/aa-iteration-'' @ format_d i @ ''.jpeg'') (\<lambda>p. img_out (out_value i p))]
            else [TrainStep i], None)"
  unfolding train_iteration_def assms(1)
  using pyramid_feed [of "''noise''" "inputDimension self" "batchSize self" 5] assms(2)
  by simp

lemma train_loop_ok:
  assumes "noise_inputs net = input_pyramid ''noise'' (inputDimension self) (batchSize self) 5"
    and "numel (get_shape (net_output net)) = 224 * 224 * 3"
  shows "snd (train_loop self net out_value steps) = None \<and>
         train_steps (fst (train_loop self net out_value steps)) = steps \<and>
         checkpoint_files (fst (train_loop self net out_value steps)) =
           map (\<lambda>i. ''models/snapshot-'' @ format_d i @ ''.ckpt'') (filter (\<lambda>i. 0 < i \<and> i mod 20 = 0) steps) \<and>
         image_files (fst (train_loop self net out_value steps)) =
           map (\<lambda>i. ''img/aa-iteration-'' @ format_d i @ ''.jpeg'') (filter (\<lambda>i. 0 < i \<and> i mod 20 = 0) steps) \<and>
         image_pixels (fst (train_loop self net out_value steps)) =
           map (\<lambda>i p. img_out (out_value i p)) (filter (\<lambda>i. 0 < i \<and> i mod 20 = 0) steps)"
proof (induction steps)
  case Nil
  show ?case by simp
next
  case (Cons i steps)
  obtain later r where lr: "train_loop self net out_value steps = (later, r)"
    by (cases "train_loop self net out_value steps")
  with Cons.IH have r: "r = None" by simp
  show ?case
    using Cons.IH
    by (simp add: train_iteration_ok [OF assms] lr r checkpoint_files_append image_files_append
          image_pixels_append train_steps_append)
qed

lemma main_trace:
  assumes "0 < channelStepSize self" and "inputDimension self = 224" and "batchSize self = 1"
  shows "snd (main self out_value) = None \<and>
         train_steps (fst (main self out_value)) = [0..<epochs self] \<and>
         checkpoint_files (fst (main self out_value)) =
           map (\<lambda>i. ''models/snapshot-'' @ format_d i @ ''.ckpt'')
             (filter (\<lambda>i. 0 < i \<and> i mod 20 = 0) [0..<epochs self]) \<and>
         image_files (fst (main self out_value)) =
           map (\<lambda>i. ''img/aa-iteration-'' @ format_d i @ ''.jpeg'')
             (filter (\<lambda>i. 0 < i \<and> i mod 20 = 0) [0..<epochs self]) \<and>
         image_pixels (fst (main self out_value)) =
           map (\<lambda>i p. img_out (out_value i p)) (filter (\<lambda>i. 0 < i \<and> i mod 20 = 0) [0..<epochs self])"
proof -
  from init_ok [OF assms(1,2), of "''img/style.jpg''"] obtain net where
    n: "TextureNetwork_init self ''img/style.jpg'' = Inr net"
    and ni: "noise_inputs net = input_pyramid ''noise'' 224 (batchSize self) 5"
    and so: "get_shape (net_output net) = \<lparr>batch = batchSize self, height = 224, width = 224, channels = 3\<rparr>"
    by force
  have a: "noise_inputs net = input_pyramid ''noise'' (inputDimension self) (batchSize self) 5"
    using ni assms(2) by simp
  have b: "numel (get_shape (net_output net)) = 224 * 224 * 3"
    by (simp add: so numel_def assms(3))
  have m: "main self out_value = train_loop self net out_value [0..<epochs self]"
    by (simp add: main_def n run_train_def)
  show ?thesis unfolding m by (rule train_loop_ok [OF a b])
qed

lemma main_aborts:
  assumes "0 < channelStepSize self" and "inputDimension self \<noteq> 224"
  shows "main self out_value = ([], Some ValueError)"
  by (simp add: main_def init_fail [OF assms])

section \<open>The generator network\<close>

text \<open>
  Claim C1. With the class attributes (five pyramid levels, target size 224) and any batch
  size, in particular 1, constructing the network succeeds and its output has the shape
  (batch, 224, 224, 3): after the levels the loop leaves an aggregate at width 40, one
  convolutional chain \<^verbatim>\<open>output_chain\<close> is applied at that width, and the output is one
  convolutional block on top of it whose kernel is 1 by 1 and which has exactly 3
  output channels.
\<close>

theorem generator_output_shape:
  "\<exists>net agg final_chain w b.
     TextureNetwork_init (TextureNetwork_attrs\<lparr>batchSize := B\<rparr>) style_img_path = Inr net \<and>
     get_shape (net_output net) = \<lparr>batch = B, height = 224, width = 224, channels = 3\<rparr> \<and>
     length (noise_inputs net) = 5 \<and>
     level_loop 8 8 (hd (noise_inputs net)) (tl (noise_inputs net)) = Inr (40, agg) \<and>
     conv_chain ''output_chain'' agg 40 = Inr final_chain \<and>
     get_shape final_chain = \<lparr>batch = B, height = 224, width = 224, channels = 40\<rparr> \<and>
     conv_block ''output'' final_chain 1 3 = Inr (net_output net) \<and>
     net_output net = block_graph final_chain w b \<and>
     var_shape w = [1, 1, 40, 3] \<and> var_shape b = [3]"
proof -
  let ?self = "TextureNetwork_attrs\<lparr>batchSize := B\<rparr>"
  have st: "channelStepSize ?self = 8" "inputDimension ?self = 224" "batchSize ?self = B"
    by (simp_all add: TextureNetwork_attrs_def)
  have pos: "0 < channelStepSize ?self" by (simp add: st)
  from generator_output [OF pos, of style_img_path] obtain agg final_chain w b where
    lv: "level_loop 8 8
               (Tensor (Placeholder (format_d 4))
                  \<lparr>batch = B, height = 224 div 2 ^ 4, width = 224 div 2 ^ 4, channels = 3\<rparr>)
               (input_pyramid ''noise'' 224 B 4)
             = Inr (8 + 8 * 4, agg)"
    and sa: "get_shape agg = \<lparr>batch = B, height = 224, width = 224, channels = 8 + 8 * 4\<rparr>"
    and fc: "conv_chain ''output_chain'' agg (8 + 8 * 4) = Inr final_chain"
    and sf: "get_shape final_chain = get_shape agg"
    and ob: "conv_block ''output'' final_chain 1 3 = Inr (block_graph final_chain w b)"
    and sw: "var_shape w = [1, 1, 8 + 8 * 4, 3]" "var_shape b = [3]"
    and i: "TextureNetwork_init ?self style_img_path =
             (case tf_concat 0 [Tensor Constant \<lparr>batch = 1, height = 224, width = 224, channels = 3\<rparr>,
                                block_graph final_chain w b, block_graph final_chain w b] of
                Inl e \<Rightarrow> Inl e
              | Inr images \<Rightarrow>
                  Inr \<lparr>noise_inputs = input_pyramid ''noise'' 224 B 5,
                       net_output = block_graph final_chain w b,
                       texture_image = Tensor Constant \<lparr>batch = 1, height = 224, width = 224, channels = 3\<rparr>,
                       image_vgg = VGGNetwork ''image_vgg'' images 1 B B,
                       loss = StyleLoss (VGGNetwork ''image_vgg'' images 1 B B)
                                (map (\<lambda>i. (i, 1)) [1..<6])\<rparr>)"
    unfolding st by blast
  have so: "get_shape (block_graph final_chain w b) = \<lparr>batch = B, height = 224, width = 224, channels = 3\<rparr>"
    by (simp add: get_shape_block_graph sf sa sw)
  define net where "net = \<lparr>noise_inputs = input_pyramid ''noise'' 224 B 5,
                       net_output = block_graph final_chain w b,
                       texture_image = Tensor Constant \<lparr>batch = 1, height = 224, width = 224, channels = 3\<rparr>,
                       image_vgg = VGGNetwork ''image_vgg''
                          (Tensor (Concat 0 [Tensor Constant \<lparr>batch = 1, height = 224, width = 224, channels = 3\<rparr>,
                                             block_graph final_chain w b, block_graph final_chain w b])
                             \<lparr>batch = 1 + B + B, height = 224, width = 224, channels = 3\<rparr>) 1 B B,
                       loss = StyleLoss (VGGNetwork ''image_vgg''
                          (Tensor (Concat 0 [Tensor Constant \<lparr>batch = 1, height = 224, width = 224, channels = 3\<rparr>,
                                             block_graph final_chain w b, block_graph final_chain w b])
                             \<lparr>batch = 1 + B + B, height = 224, width = 224, channels = 3\<rparr>) 1 B B)
                                (map (\<lambda>i. (i, 1)) [1..<6])\<rparr>"
  have n: "TextureNetwork_init ?self style_img_path = Inr net"
    unfolding i concat_style_image [OF so] net_def by simp
  have no: "net_output net = block_graph final_chain w b" by (simp add: net_def)
  have ni: "noise_inputs net = input_pyramid ''noise'' 224 B 5" by (simp add: net_def)
  have l: "length (noise_inputs net) = 5" by (simp add: ni length_input_pyramid)
  have lv': "level_loop 8 8 (hd (noise_inputs net)) (tl (noise_inputs net)) = Inr (40, agg)"
    using lv by (simp add: ni input_pyramid_5)
  have fc': "conv_chain ''output_chain'' agg 40 = Inr final_chain" using fc by simp
  have sf': "get_shape final_chain = \<lparr>batch = B, height = 224, width = 224, channels = 40\<rparr>"
    using sf sa by simp
  have sw': "var_shape w = [1, 1, 40, 3]" using sw(1) by simp
  show ?thesis
    using n so l lv' fc' sf' ob no sw' sw(2) by (metis (no_types))
qed


text \<open>
  Claim C2. At every level \<open>i\<close> from 1 to \<open>K - 1\<close> of the loop, the lower chain is
  declared at the running width \<open>8 * i\<close> and the higher chain at the step 8; the
  aggregate that the join produces has as many channels as the two chains together, that
  is \<open>8 * (i + 1)\<close>, which is also the running width after the level, and more than
  the aggregate of the level before.
\<close>

theorem level_channel_invariant:
  assumes "1 \<le> i" and "i < K"
  shows "\<exists>prev low high agg.
           level_loop 8 8 (input_pyramid ''noise'' M B K ! 0)
               (take (i - 1) (tl (input_pyramid ''noise'' M B K))) = Inr (8 * i, prev) \<and>
           conv_chain (''chain_lower_'' @ format_d (8 * i)) prev (8 * i) = Inr low \<and>
           channels (get_shape low) = 8 * i \<and>
           conv_chain ''chain_higher'' (input_pyramid ''noise'' M B K ! i) 8 = Inr high \<and>
           channels (get_shape high) = 8 \<and>
           join_block (''join_'' @ format_d (8 * i + 8 + 8)) low high = Inr agg \<and>
           channels (get_shape agg) = channels (get_shape low) + channels (get_shape high) \<and>
           channels (get_shape agg) = 8 * (i + 1) \<and>
           channels (get_shape prev) < channels (get_shape agg) \<and>
           level_loop 8 8 (input_pyramid ''noise'' M B K ! 0)
               (take i (tl (input_pyramid ''noise'' M B K))) = Inr (8 * (i + 1), agg)"
proof -
  let ?pyr = "input_pyramid ''noise'' M B K"
  let ?frames = "tl ?pyr"
  have len: "length ?pyr = K" by (rule length_input_pyramid)
  have allp: "list_all (\<lambda>t. batch (get_shape t) = B \<and> channels (get_shape t) = 3) ?pyr"
    by (rule input_pyramid_all)
  have nthp: "\<And>j. j < K \<Longrightarrow> batch (get_shape (?pyr ! j)) = B \<and> channels (get_shape (?pyr ! j)) = 3"
    using allp len by (simp add: list_all_length)
  have b0: "batch (get_shape (?pyr ! 0)) = B" and c0: "channels (get_shape (?pyr ! 0)) = 3"
    using nthp [of 0] assms by simp_all
  have lenf: "length ?frames = K - 1" by (simp add: len)
  have nthf: "\<And>j. j < K - 1 \<Longrightarrow> ?frames ! j = ?pyr ! Suc j"
    using len by (simp add: nth_tl)
  have fi: "?frames ! (i - 1) = ?pyr ! i" using nthf [of "i - 1"] assms by simp
  have allf: "list_all (\<lambda>f. batch (get_shape f) = batch (get_shape (?pyr ! 0))) (take (i - 1) ?frames)"
    using nthp nthf lenf assms by (simp add: list_all_length b0)
  have lt: "length (take (i - 1) ?frames) = i - 1" using lenf assms by simp
  from level_loop_ok [OF _ _ allf, of 8 8] obtain prev where
    p: "level_loop 8 8 (?pyr ! 0) (take (i - 1) ?frames) = Inr (8 + 8 * (i - 1), prev)"
    and ps: "get_shape prev =
               (if take (i - 1) ?frames = [] then get_shape (?pyr ! 0)
                else (get_shape (last (take (i - 1) ?frames)))\<lparr>channels := 8 + 8 * (i - 1)\<rparr>)"
    unfolding lt by auto
  have cc: "8 + 8 * (i - 1) = 8 * i" using assms(1) by (cases i) simp_all
  have bp: "batch (get_shape prev) = B"
  proof (cases "take (i - 1) ?frames = []")
    case True
    then show ?thesis using ps b0 by simp
  next
    case False
    then have "last (take (i - 1) ?frames) \<in> set (take (i - 1) ?frames)" by simp
    then have "batch (get_shape (last (take (i - 1) ?frames))) = batch (get_shape (?pyr ! 0))"
      using allf by (simp add: list_all_iff)
    then show ?thesis using ps False b0 by simp
  qed
  have cp: "channels (get_shape prev) \<le> 8 * i"
    using ps c0 assms(1) cc by (cases "take (i - 1) ?frames = []") simp_all
  have bf: "batch (get_shape (?pyr ! i)) = batch (get_shape prev)"
    using nthp [of i] assms(2) bp by simp
  have pos: "0 < 8 * i" using assms(1) by simp
  from level_step [OF _ pos bf, of 8 "[]"] obtain low high agg where
    low: "conv_chain (''chain_lower_'' @ format_d (8 * i)) prev (8 * i) = Inr low"
         "get_shape low = (get_shape prev)\<lparr>channels := 8 * i\<rparr>"
    and high: "conv_chain ''chain_higher'' (?pyr ! i) 8 = Inr high"
         "get_shape high = (get_shape (?pyr ! i))\<lparr>channels := 8\<rparr>"
    and j: "join_block (''join_'' @ format_d (8 * i + 8 + 8)) low high = Inr agg"
         "get_shape agg = (get_shape (?pyr ! i))\<lparr>channels := 8 * i + 8\<rparr>"
    and st: "level_loop 8 (8 * i) prev [?pyr ! i] = level_loop 8 (8 * i + 8) agg []"
    by auto
  have tk: "take i ?frames = take (i - 1) ?frames @ [?pyr ! i]"
  proof -
    have "i - 1 < length ?frames" using lenf assms by simp
    from take_Suc_conv_app_nth [OF this] show ?thesis using assms(1) fi by simp
  qed
  have p': "level_loop 8 8 (?pyr ! 0) (take (i - 1) ?frames) = Inr (8 * i, prev)"
    using p by (simp only: cc)
  have st': "level_loop 8 (8 * i) prev [?pyr ! i] = Inr (8 * (i + 1), agg)"
    unfolding st by simp
  have full: "level_loop 8 8 (?pyr ! 0) (take i ?frames) = Inr (8 * (i + 1), agg)"
    unfolding tk level_loop_append p' by (simp only: sum.case prod.case st')
  have c1: "channels (get_shape low) = 8 * i" by (simp add: low(2))
  have c2: "channels (get_shape high) = 8" by (simp add: high(2))
  have c3: "channels (get_shape agg) = channels (get_shape low) + channels (get_shape high)"
    by (simp add: j(2) c1 c2)
  have c4: "channels (get_shape agg) = 8 * (i + 1)" by (simp add: j(2))
  have c5: "channels (get_shape prev) < channels (get_shape agg)" using cp c4 by simp
  show ?thesis
    using p' low(1) c1 high(1) c2 j(1) c3 c4 c5 full by blast
qed

text \<open>The last level of the configured pyramid: width 32 before it, 40 after it.\<close>

theorem level_channel_invariant_witness:
  "(1::nat) \<le> 4 \<and> (4::nat) < 5 \<and>
   (\<exists>prev agg. level_loop 8 8 (input_pyramid ''noise'' 224 1 5 ! 0)
               (take 3 (tl (input_pyramid ''noise'' 224 1 5))) = Inr (32, prev) \<and>
           channels (get_shape agg) = 40 \<and>
           level_loop 8 8 (input_pyramid ''noise'' 224 1 5 ! 0)
               (take 4 (tl (input_pyramid ''noise'' 224 1 5))) = Inr (40, agg))"
proof -
  have h1: "(1::nat) \<le> 4" by simp
  have h2: "(4::nat) < 5" by simp
  from level_channel_invariant [OF h1 h2, of 224 1] show ?thesis
    using h1 h2 by auto
qed

section \<open>Checkpoints and rendered images\<close>

text \<open>
  Claim C3, as amended. The loop visits the step indices \<open>0, \<dots>, epochs - 1\<close> and
  saves at an index that is positive and a multiple of 20. A run of exactly 20 steps
  therefore ends at index 19 without error and writes no checkpoint and no image; a run
  of 21 steps writes exactly one checkpoint and exactly one image, both named after
  step index 20.
\<close>

theorem checkpoint_schedule:
  "snd (main (TextureNetwork_attrs\<lparr>epochs := 20\<rparr>) out_value) = None \<and>
   train_steps (fst (main (TextureNetwork_attrs\<lparr>epochs := 20\<rparr>) out_value)) = [0..<20] \<and>
   checkpoint_files (fst (main (TextureNetwork_attrs\<lparr>epochs := 20\<rparr>) out_value)) = [] \<and>
   image_files (fst (main (TextureNetwork_attrs\<lparr>epochs := 20\<rparr>) out_value)) = [] \<and>
   snd (main (TextureNetwork_attrs\<lparr>epochs := 21\<rparr>) out_value) = None \<and>
   train_steps (fst (main (TextureNetwork_attrs\<lparr>epochs := 21\<rparr>) out_value)) = [0..<21] \<and>
   checkpoint_files (fst (main (TextureNetwork_attrs\<lparr>epochs := 21\<rparr>) out_value)) =
     [''models/snapshot-20.ckpt''] \<and>
   image_files (fst (main (TextureNetwork_attrs\<lparr>epochs := 21\<rparr>) out_value)) =
     [''img/aa-iteration-20.jpeg'']"
proof -
  have f20: "filter (\<lambda>i. 0 < i \<and> i mod 20 = 0) [0..<20] = ([]::nat list)"
    by (simp add: upt_rec)
  have f21: "filter (\<lambda>i. 0 < i \<and> i mod 20 = 0) [0..<21] = [20::nat]"
    by (simp add: upt_rec)
  have d20: "format_d 20 = ''20''" by (simp add: format_d.simps digit_char_def)
  have a: "0 < channelStepSize (TextureNetwork_attrs\<lparr>epochs := e\<rparr>)"
          "inputDimension (TextureNetwork_attrs\<lparr>epochs := e\<rparr>) = 224"
          "batchSize (TextureNetwork_attrs\<lparr>epochs := e\<rparr>) = 1" for e
    by (simp_all add: TextureNetwork_attrs_def)
  have e: "epochs (TextureNetwork_attrs\<lparr>epochs := e\<rparr>) = e" for e by simp
  from main_trace [OF a, of 20 out_value] main_trace [OF a, of 21 out_value]
  show ?thesis
    unfolding e f20 f21 by (simp add: d20)
qed

text \<open>
  The run of exactly 20 steps on an output that is zero throughout: it writes no
  checkpoint and no image, where the claim as written expects one of each.
\<close>

theorem checkpoint_schedule_counterexample:
  "checkpoint_files (fst (main (TextureNetwork_attrs\<lparr>epochs := 20\<rparr>) black_output)) = [] \<and>
   image_files (fst (main (TextureNetwork_attrs\<lparr>epochs := 20\<rparr>) black_output)) = []"
proof -
  have f20: "filter (\<lambda>i. 0 < i \<and> i mod 20 = 0) [0..<20] = ([]::nat list)"
    by (simp add: upt_rec)
  have a: "0 < channelStepSize (TextureNetwork_attrs\<lparr>epochs := 20\<rparr>)"
          "inputDimension (TextureNetwork_attrs\<lparr>epochs := 20\<rparr>) = 224"
          "batchSize (TextureNetwork_attrs\<lparr>epochs := 20\<rparr>) = 1"
    by (simp_all add: TextureNetwork_attrs_def)
  have e: "epochs (TextureNetwork_attrs\<lparr>epochs := 20\<rparr>) = 20" by simp
  from main_trace [OF a, of black_output]
  show ?thesis unfolding e f20 by simp
qed

section \<open>Pyramids of any size\<close>

lemma pyramid_forward:
  "rev (map f [0..<k]) = map (\<lambda>j. f (k - 1 - j)) [0..<k]"
  by (rule nth_equalityI) (simp_all add: rev_nth)

text \<open>
  Claim C4, as amended. \<^verbatim>\<open>noise_pyramid\<close> and \<^verbatim>\<open>input_pyramid\<close> check nothing and
  cannot fail: for every \<open>M\<close>, \<open>B\<close> and \<open>k\<close>, whether or not \<open>2 ^ (k - 1)\<close>
  divides \<open>M\<close>, they return \<open>k\<close> tensors, the one at position \<open>j\<close> of size
  \<open>M div 2 ^ (k - 1 - j)\<close> (the quotient rounded down). The only target size the
  construction of the network accepts is 224, the size of the style image that the
  output is concatenated with: for every other \<open>M\<close>, divisible or not, construction
  raises \<^verbatim>\<open>ValueError\<close> and no training step runs; for 224 all 1000 steps run.
\<close>

theorem pyramids_never_fail:
  "noise_pyramid M B k =
     map (\<lambda>j. \<lparr>batch = B, height = M div 2 ^ (k - 1 - j), width = M div 2 ^ (k - 1 - j), channels = 3\<rparr>)
       [0..<k] \<and>
   map get_shape (input_pyramid name M B k) =
     map (\<lambda>j. \<lparr>batch = B, height = M div 2 ^ (k - 1 - j), width = M div 2 ^ (k - 1 - j), channels = 3\<rparr>)
       [0..<k] \<and>
   length (noise_pyramid M B k) = k \<and> length (input_pyramid name M B k) = k \<and>
   (\<exists>net. TextureNetwork_init (TextureNetwork_attrs\<lparr>inputDimension := M\<rparr>) ''img/style.jpg'' = Inr net)
     = (M = 224) \<and>
   train_steps (fst (main (TextureNetwork_attrs\<lparr>inputDimension := M\<rparr>) out_value)) =
     (if M = 224 then [0..<1000] else []) \<and>
   snd (main (TextureNetwork_attrs\<lparr>inputDimension := M\<rparr>) out_value) =
     (if M = 224 then None else Some ValueError)"
proof -
  let ?self = "TextureNetwork_attrs\<lparr>inputDimension := M\<rparr>"
  have np: "noise_pyramid M B k =
     map (\<lambda>j. \<lparr>batch = B, height = M div 2 ^ (k - 1 - j), width = M div 2 ^ (k - 1 - j), channels = 3\<rparr>)
       [0..<k]"
    unfolding noise_pyramid_def by (rule pyramid_forward)
  have ip: "map get_shape (input_pyramid name M B k) =
     map (\<lambda>j. \<lparr>batch = B, height = M div 2 ^ (k - 1 - j), width = M div 2 ^ (k - 1 - j), channels = 3\<rparr>)
       [0..<k]"
    unfolding map_get_shape_input_pyramid by (rule np)
  have ln: "length (noise_pyramid M B k) = k" by (rule length_noise_pyramid)
  have li: "length (input_pyramid name M B k) = k" by (rule length_input_pyramid)
  have st: "0 < channelStepSize ?self" "batchSize ?self = 1" "epochs ?self = 1000" "inputDimension ?self = M"
    by (simp_all add: TextureNetwork_attrs_def)
  have rest: "((\<exists>net. TextureNetwork_init ?self ''img/style.jpg'' = Inr net) = (M = 224)) \<and>
     train_steps (fst (main ?self out_value)) = (if M = 224 then [0..<1000] else []) \<and>
     snd (main ?self out_value) = (if M = 224 then None else Some ValueError)"
  proof (cases "M = 224")
    case True
    then have i: "inputDimension ?self = 224" by simp
    from init_ok [OF st(1) i, of "''img/style.jpg''"]
    have "\<exists>net. TextureNetwork_init ?self ''img/style.jpg'' = Inr net" by blast
    moreover from main_trace [OF st(1) i st(2), of out_value]
    have "train_steps (fst (main ?self out_value)) = [0..<1000]" "snd (main ?self out_value) = None"
      by (simp_all only: st(3))
    ultimately show ?thesis using True by simp
  next
    case False
    then have i: "inputDimension ?self \<noteq> 224" by simp
    have "TextureNetwork_init ?self ''img/style.jpg'' = Inl ValueError"
      by (rule init_fail [OF st(1) i])
    moreover have "main ?self out_value = ([], Some ValueError)"
      by (rule main_aborts [OF st(1) i])
    ultimately show ?thesis using False by simp
  qed
  show ?thesis
    using np ip ln li rest by blast
qed

text \<open>
  The target size 225 with five levels, which 16 does not divide: both pyramids are
  returned, with the sizes rounded down, and the loop over the levels builds the whole
  generator on them without an error.
\<close>

theorem pyramids_never_fail_counterexample:
  "\<not> 2 ^ (5 - 1) dvd (225::nat) \<and>
   noise_pyramid 225 1 5 =
     [\<lparr>batch = 1, height = 14, width = 14, channels = 3\<rparr>,
      \<lparr>batch = 1, height = 28, width = 28, channels = 3\<rparr>,
      \<lparr>batch = 1, height = 56, width = 56, channels = 3\<rparr>,
      \<lparr>batch = 1, height = 112, width = 112, channels = 3\<rparr>,
      \<lparr>batch = 1, height = 225, width = 225, channels = 3\<rparr>] \<and>
   map get_shape (input_pyramid ''noise'' 225 1 5) =
     [\<lparr>batch = 1, height = 14, width = 14, channels = 3\<rparr>,
      \<lparr>batch = 1, height = 28, width = 28, channels = 3\<rparr>,
      \<lparr>batch = 1, height = 56, width = 56, channels = 3\<rparr>,
      \<lparr>batch = 1, height = 112, width = 112, channels = 3\<rparr>,
      \<lparr>batch = 1, height = 225, width = 225, channels = 3\<rparr>] \<and>
   map_sum id (get_shape \<circ> snd)
     (level_loop 8 8 (hd (input_pyramid ''noise'' 225 1 5)) (tl (input_pyramid ''noise'' 225 1 5))) =
     Inr \<lparr>batch = 1, height = 225, width = 225, channels = 40\<rparr>"
proof -
  have p: "noise_pyramid 225 1 5 =
     [\<lparr>batch = 1, height = 14, width = 14, channels = 3\<rparr>,
      \<lparr>batch = 1, height = 28, width = 28, channels = 3\<rparr>,
      \<lparr>batch = 1, height = 56, width = 56, channels = 3\<rparr>,
      \<lparr>batch = 1, height = 112, width = 112, channels = 3\<rparr>,
      \<lparr>batch = 1, height = 225, width = 225, channels = 3\<rparr>]"
    by (simp add: noise_pyramid_def upt_rec)
  have q: "map get_shape (input_pyramid ''noise'' 225 1 5) =
     [\<lparr>batch = 1, height = 14, width = 14, channels = 3\<rparr>,
      \<lparr>batch = 1, height = 28, width = 28, channels = 3\<rparr>,
      \<lparr>batch = 1, height = 56, width = 56, channels = 3\<rparr>,
      \<lparr>batch = 1, height = 112, width = 112, channels = 3\<rparr>,
      \<lparr>batch = 1, height = 225, width = 225, channels = 3\<rparr>]"
    unfolding map_get_shape_input_pyramid by (rule p)
  from generator_levels [of 8 1 225] obtain agg where
    "level_loop 8 8
       (Tensor (Placeholder (format_d 4))
          \<lparr>batch = 1, height = 225 div 2 ^ 4, width = 225 div 2 ^ 4, channels = 3\<rparr>)
       (input_pyramid ''noise'' 225 1 4) = Inr (8 + 8 * 4, agg)"
    and "get_shape agg = \<lparr>batch = 1, height = 225, width = 225, channels = 8 + 8 * 4\<rparr>"
    by auto
  then have r: "map_sum id (get_shape \<circ> snd)
     (level_loop 8 8 (hd (input_pyramid ''noise'' 225 1 5)) (tl (input_pyramid ''noise'' 225 1 5))) =
     Inr \<lparr>batch = 1, height = 225, width = 225, channels = 40\<rparr>"
    by (simp add: input_pyramid_5)
  have "\<not> 2 ^ (5 - 1) dvd (225::nat)" by simp
  with p q r show ?thesis by blast
qed

text \<open>
  Claim C5. For a positive target size \<open>M\<close> that \<open>2 ^ (K - 1)\<close> divides and every
  batch size \<open>B\<close>, \<^verbatim>\<open>noise_pyramid\<close> returns exactly \<open>K\<close> arrays; the one at
  position \<open>j\<close> has the shape \<open>(B, s, s, 3)\<close> where \<open>s\<close> is the exact quotient of
  \<open>M\<close> by \<open>2 ^ (K - 1 - j)\<close>, so the sizes run from \<open>M / 2 ^ (K - 1)\<close> to \<open>M\<close>,
  and they increase strictly along the list.
\<close>

theorem noise_pyramid_sizes:
  assumes "0 < M" and "2 ^ (K - 1) dvd M"
  shows "length (noise_pyramid M B K) = K \<and>
         (\<forall>j<K. noise_pyramid M B K ! j =
                   \<lparr>batch = B, height = M div 2 ^ (K - 1 - j), width = M div 2 ^ (K - 1 - j), channels = 3\<rparr> \<and>
                 2 ^ (K - 1 - j) * (M div 2 ^ (K - 1 - j)) = M) \<and>
         sorted_wrt (<) (map height (noise_pyramid M B K)) \<and>
         sorted_wrt (<) (map width (noise_pyramid M B K))"
proof -
  have len: "length (noise_pyramid M B K) = K" by (rule length_noise_pyramid)
  have nth: "\<forall>j<K. noise_pyramid M B K ! j =
                   \<lparr>batch = B, height = M div 2 ^ (K - 1 - j), width = M div 2 ^ (K - 1 - j), channels = 3\<rparr> \<and>
                 2 ^ (K - 1 - j) * (M div 2 ^ (K - 1 - j)) = M"
    using noise_pyramid_nth pyramid_sizes_exact [OF assms(2)] by blast
  have h: "sorted_wrt (<) (map height (noise_pyramid M B K))"
    unfolding sorted_wrt_iff_nth_less
    using pyramid_sizes_increasing [OF assms] by (simp add: len noise_pyramid_nth)
  have w: "sorted_wrt (<) (map width (noise_pyramid M B K))"
    unfolding sorted_wrt_iff_nth_less
    using pyramid_sizes_increasing [OF assms] by (simp add: len noise_pyramid_nth)
  from len nth h w show ?thesis by blast
qed

text \<open>The configured pyramid: five arrays, from 14 by 14 to 224 by 224.\<close>

theorem noise_pyramid_sizes_witness:
  "(0::nat) < 224 \<and> 2 ^ (5 - 1) dvd (224::nat) \<and>
   length (noise_pyramid 224 1 5) = 5 \<and>
   noise_pyramid 224 1 5 ! 0 = \<lparr>batch = 1, height = 14, width = 14, channels = 3\<rparr> \<and>
   noise_pyramid 224 1 5 ! 4 = \<lparr>batch = 1, height = 224, width = 224, channels = 3\<rparr> \<and>
   sorted_wrt (<) (map height (noise_pyramid 224 1 5))"
proof -
  have h1: "(0::nat) < 224" by simp
  have h2: "2 ^ (5 - 1) dvd (224::nat)" by simp
  from noise_pyramid_sizes [OF h1 h2, of 1]
  have a: "length (noise_pyramid 224 1 5) = 5"
    and b: "\<forall>j<5. noise_pyramid 224 1 5 ! j =
                   \<lparr>batch = 1, height = 224 div 2 ^ (5 - 1 - j), width = 224 div 2 ^ (5 - 1 - j), channels = 3\<rparr> \<and>
                 2 ^ (5 - 1 - j) * (224 div 2 ^ (5 - 1 - j)) = (224::nat)"
    and c: "sorted_wrt (<) (map height (noise_pyramid 224 1 5))"
    by blast+
  from b have "noise_pyramid 224 1 5 ! 0 = \<lparr>batch = 1, height = 14, width = 14, channels = 3\<rparr>"
    by simp
  moreover from b have "noise_pyramid 224 1 5 ! 4 = \<lparr>batch = 1, height = 224, width = 224, channels = 3\<rparr>"
    by simp
  ultimately show ?thesis using h1 h2 a c by blast
qed

section \<open>The fusion block and the convolutional chain\<close>

text \<open>
  Claim C6, as amended. For two tensors of the same batch size, with any spatial sizes
  and any channel counts, \<^verbatim>\<open>join_block\<close> succeeds: it resizes the lower tensor to the
  height and width of the higher one by nearest neighbour, normalises the resized tensor
  and the higher tensor separately, and concatenates the two along axis 3. The result has
  the spatial size of the higher tensor and the sum of the two channel counts.
\<close>

theorem join_block_shape:
  assumes "batch (get_shape lower_res_layer) = batch (get_shape higher_res_layer)"
  shows "\<exists>upsampled joined.
           upsampled = Tensor (ResizeNearestNeighbor lower_res_layer
                                 (height (get_shape higher_res_layer)) (width (get_shape higher_res_layer)))
                         \<lparr>batch = batch (get_shape lower_res_layer),
                          height = height (get_shape higher_res_layer),
                          width = width (get_shape higher_res_layer),
                          channels = channels (get_shape lower_res_layer)\<rparr> \<and>
           join_block name lower_res_layer higher_res_layer = Inr joined \<and>
           producer joined =
             Concat 3 [Tensor (SpatialBatchNorm upsampled (Some ''normLower'')) (get_shape upsampled),
                       Tensor (SpatialBatchNorm higher_res_layer (Some ''normHigher''))
                         (get_shape higher_res_layer)] \<and>
           get_shape joined =
             \<lparr>batch = batch (get_shape higher_res_layer),
              height = height (get_shape higher_res_layer),
              width = width (get_shape higher_res_layer),
              channels = channels (get_shape lower_res_layer) + channels (get_shape higher_res_layer)\<rparr>"
  using join_block_eq [OF assms, of name] by simp

text \<open>A 2 by 2 tensor with 3 channels joined with a 4 by 4 tensor with 5 channels.\<close>

theorem join_block_shape_witness:
  "batch (get_shape (Tensor (Placeholder ''1'') \<lparr>batch = 1, height = 2, width = 2, channels = 3\<rparr>)) =
     batch (get_shape (Tensor (Placeholder ''0'') \<lparr>batch = 1, height = 4, width = 4, channels = 5\<rparr>)) \<and>
   (\<exists>joined.
      join_block ''join''
        (Tensor (Placeholder ''1'') \<lparr>batch = 1, height = 2, width = 2, channels = 3\<rparr>)
        (Tensor (Placeholder ''0'') \<lparr>batch = 1, height = 4, width = 4, channels = 5\<rparr>) = Inr joined \<and>
      get_shape joined = \<lparr>batch = 1, height = 4, width = 4, channels = 8\<rparr>)"
proof -
  have h: "batch (get_shape (Tensor (Placeholder ''1'') \<lparr>batch = 1, height = 2, width = 2, channels = 3\<rparr>)) =
     batch (get_shape (Tensor (Placeholder ''0'') \<lparr>batch = 1, height = 4, width = 4, channels = 5\<rparr>))"
    by simp
  from join_block_shape [OF h, of "''join''"] show ?thesis by auto
qed

text \<open>
  The same two tensors with batch sizes 1 and 2: the concatenation is rejected, where the
  claim as written promises a result for every pair of tensors.
\<close>

theorem join_block_shape_counterexample:
  "join_block ''join''
     (Tensor (Placeholder ''1'') \<lparr>batch = 1, height = 2, width = 2, channels = 3\<rparr>)
     (Tensor (Placeholder ''0'') \<lparr>batch = 2, height = 4, width = 4, channels = 5\<rparr>) = Inl ValueError"
  by (simp add: join_block_def resize_nearest_neighbor_def spatial_batch_norm_def dims_def set_dim_def)

text \<open>
  Claim C7, as amended. For every input tensor and every positive target channel count,
  \<^verbatim>\<open>conv_chain\<close> succeeds and its result is three convolutional blocks stacked on the
  input, with kernels 3 by 3, 3 by 3 and 1 by 1, each with the target number of output
  channels; the result has the batch and spatial size of the input and exactly the
  target number of channels.
\<close>

theorem conv_chain_three_blocks:
  assumes "0 < out_channels"
  shows "\<exists>w1 b1 w2 b2 w3 b3 block3.
           conv_chain name input_layer out_channels = Inr block3 \<and>
           block3 = block_graph (block_graph (block_graph input_layer w1 b1) w2 b2) w3 b3 \<and>
           var_shape w1 = [3, 3, channels (get_shape input_layer), out_channels] \<and>
           var_shape b1 = [out_channels] \<and>
           var_shape w2 = [3, 3, out_channels, out_channels] \<and> var_shape b2 = [out_channels] \<and>
           var_shape w3 = [1, 1, out_channels, out_channels] \<and> var_shape b3 = [out_channels] \<and>
           get_shape block3 =
             \<lparr>batch = batch (get_shape input_layer), height = height (get_shape input_layer),
              width = width (get_shape input_layer), channels = out_channels\<rparr>"
proof -
  from conv_chain_ok [OF assms, of name input_layer] obtain w1 b1 w2 b2 w3 b3 where
    e: "conv_chain name input_layer out_channels =
          Inr (block_graph (block_graph (block_graph input_layer w1 b1) w2 b2) w3 b3)"
    and s: "var_shape w1 = [3, 3, channels (get_shape input_layer), out_channels]"
           "var_shape b1 = [out_channels]"
           "var_shape w2 = [3, 3, out_channels, out_channels]" "var_shape b2 = [out_channels]"
           "var_shape w3 = [1, 1, out_channels, out_channels]" "var_shape b3 = [out_channels]"
    by blast
  have "get_shape (block_graph (block_graph (block_graph input_layer w1 b1) w2 b2) w3 b3) =
             \<lparr>batch = batch (get_shape input_layer), height = height (get_shape input_layer),
              width = width (get_shape input_layer), channels = out_channels\<rparr>"
    by (simp add: get_shape_block_graph s)
  with e s show ?thesis by blast
qed

text \<open>The higher chain of a level, on a placeholder with 3 channels.\<close>

theorem conv_chain_three_blocks_witness:
  "(0::nat) < 8 \<and>
   (\<exists>block3. conv_chain ''chain_higher''
                (Tensor (Placeholder ''0'') \<lparr>batch = 1, height = 4, width = 4, channels = 3\<rparr>) 8 = Inr block3 \<and>
              get_shape block3 = \<lparr>batch = 1, height = 4, width = 4, channels = 8\<rparr>)"
proof -
  have h: "(0::nat) < 8" by simp
  from conv_chain_three_blocks [OF h, of "''chain_higher''"
         "Tensor (Placeholder ''0'') \<lparr>batch = 1, height = 4, width = 4, channels = 3\<rparr>"]
  show ?thesis using h by auto
qed

text \<open>
  The target channel count 0: the first block yields 0 channels and the second divides by
  \<open>0 + 0\<close>, where the claim as written promises a result for every target count.
\<close>

theorem conv_chain_three_blocks_counterexample:
  "conv_chain ''chain_higher''
     (Tensor (Placeholder ''0'') \<lparr>batch = 1, height = 4, width = 4, channels = 3\<rparr>) 0 =
   Inl ZeroDivisionError"
  by (simp add: conv_chain_def conv_block_def conv2d_def leaky_relu_def spatial_batch_norm_def Let_def)


section \<open>Exporting the image\<close>

lemma np_clip_range: "0 \<le> np_clip a 0 255 \<and> np_clip a 0 255 \<le> 255"
  by (simp add: np_clip_def)

lemma uint_astype_uint8:
  assumes "0 \<le> x" and "x \<le> 255"
  shows "uint (astype_uint8 x) = \<lfloor>x\<rfloor>"
proof -
  have lo: "0 \<le> \<lfloor>x\<rfloor>" using assms(1) by simp
  have "\<lfloor>x\<rfloor> \<le> 255" using assms(2) by (simp add: floor_le_iff)
  then have hi: "\<lfloor>x\<rfloor> < 2 ^ 8" by simp
  have "uint (astype_uint8 x) = take_bit 8 \<lfloor>x\<rfloor>"
    using assms(1) by (simp add: astype_uint8_def uint_word_of_int_eq)
  also have "\<dots> = \<lfloor>x\<rfloor>" using lo hi by (rule take_bit_int_eq_self)
  finally show ?thesis .
qed

lemma leaky_relu_value_onto: "\<exists>x. leaky_relu_value x (1 / 100) = y"
proof (cases "0 \<le> y")
  case True
  then have "leaky_relu_value y (1 / 100) = y" by (simp add: leaky_relu_value_def max_def)
  then show ?thesis ..
next
  case False
  then have "leaky_relu_value (100 * y) (1 / 100) = y" by (simp add: leaky_relu_value_def max_def)
  then show ?thesis ..
qed

text \<open>
  Claim C8, as amended. Each value of the output that is written to an image file is
  first multiplied by 255, clipped to the range from 0 to 255 and then cut down to its
  integer part (not rounded to the nearest integer); the byte written is exactly that
  integer part, with no wrap-around. This happens to the copy that is exported, at the
  steps that save: the output of the network itself is the leaky rectification of its
  last block, which reaches every real value.
\<close>

theorem export_clips_and_truncates:
  "uint (img_out v) = \<lfloor>np_clip (v * 255) 0 255\<rfloor> \<and>
   0 \<le> np_clip (v * 255) 0 255 \<and> np_clip (v * 255) 0 255 \<le> 255 \<and>
   image_pixels (fst (main (TextureNetwork_attrs\<lparr>epochs := e\<rparr>) out_value)) =
     map (\<lambda>i p. img_out (out_value i p)) (filter (\<lambda>i. 0 < i \<and> i mod 20 = 0) [0..<e]) \<and>
   (\<exists>net t. TextureNetwork_init TextureNetwork_attrs style_img_path = Inr net \<and>
            producer (net_output net) = LeakyRelu t (1 / 100)) \<and>
   (\<forall>y. \<exists>x. leaky_relu_value x (1 / 100) = y)"
proof -
  have r: "0 \<le> np_clip (v * 255) 0 255" "np_clip (v * 255) 0 255 \<le> 255"
    using np_clip_range [of "v * 255"] by simp_all
  have u: "uint (img_out v) = \<lfloor>np_clip (v * 255) 0 255\<rfloor>"
    unfolding img_out_def by (rule uint_astype_uint8 [OF r])
  have a: "0 < channelStepSize (TextureNetwork_attrs\<lparr>epochs := e\<rparr>)"
          "inputDimension (TextureNetwork_attrs\<lparr>epochs := e\<rparr>) = 224"
          "batchSize (TextureNetwork_attrs\<lparr>epochs := e\<rparr>) = 1"
    by (simp_all add: TextureNetwork_attrs_def)
  from main_trace [OF a, of out_value]
  have px: "image_pixels (fst (main (TextureNetwork_attrs\<lparr>epochs := e\<rparr>) out_value)) =
     map (\<lambda>i p. img_out (out_value i p)) (filter (\<lambda>i. 0 < i \<and> i mod 20 = 0) [0..<e])"
    by simp
  have pos: "0 < channelStepSize TextureNetwork_attrs" by (simp add: TextureNetwork_attrs_def)
  from generator_output [OF pos, of style_img_path] obtain final_chain w b where
    sf: "get_shape final_chain = \<lparr>batch = batchSize TextureNetwork_attrs,
            height = inputDimension TextureNetwork_attrs, width = inputDimension TextureNetwork_attrs,
            channels = 8 + channelStepSize TextureNetwork_attrs * 4\<rparr>"
    and sw: "var_shape w = [1, 1, 8 + channelStepSize TextureNetwork_attrs * 4, 3]"
    and i: "TextureNetwork_init TextureNetwork_attrs style_img_path =
             (case tf_concat 0 [Tensor Constant \<lparr>batch = 1, height = 224, width = 224, channels = 3\<rparr>,
                                block_graph final_chain w b, block_graph final_chain w b] of
                Inl e \<Rightarrow> Inl e
              | Inr images \<Rightarrow>
                  Inr \<lparr>noise_inputs = input_pyramid ''noise'' (inputDimension TextureNetwork_attrs)
                                        (batchSize TextureNetwork_attrs) 5,
                       net_output = block_graph final_chain w b,
                       texture_image = Tensor Constant \<lparr>batch = 1, height = 224, width = 224, channels = 3\<rparr>,
                       image_vgg = VGGNetwork ''image_vgg'' images 1 (batchSize TextureNetwork_attrs)
                                     (batchSize TextureNetwork_attrs),
                       loss = StyleLoss (VGGNetwork ''image_vgg'' images 1 (batchSize TextureNetwork_attrs)
                                           (batchSize TextureNetwork_attrs))
                                (map (\<lambda>i. (i, 1)) [1..<6])\<rparr>)"
    by auto
  have so: "get_shape (block_graph final_chain w b) =
              \<lparr>batch = 1, height = 224, width = 224, channels = 3\<rparr>"
    by (simp add: get_shape_block_graph sf sw TextureNetwork_attrs_def)
  have "\<exists>net. TextureNetwork_init TextureNetwork_attrs style_img_path = Inr net \<and>
              net_output net = block_graph final_chain w b"
    unfolding i concat_style_image [OF so] by simp
  then have lr: "\<exists>net t. TextureNetwork_init TextureNetwork_attrs style_img_path = Inr net \<and>
            producer (net_output net) = LeakyRelu t (1 / 100)"
    by (auto simp: block_graph_def Let_def)
  show ?thesis
    using u r px lr leaky_relu_value_onto by blast
qed

text \<open>
  The output value 1/256: scaled it is 255/256, which rounds to 1, and the byte written
  is 0.
\<close>

theorem export_clips_and_truncates_counterexample:
  "uint (img_out (1 / 256)) = 0 \<and> round (np_clip (1 / 256 * 255) 0 255) = 1"
  by (simp add: img_out_def astype_uint8_def np_clip_def round_def)

section \<open>The input of the feature extractor\<close>

text \<open>
  Claim C9. The tensor handed to \<^verbatim>\<open>VGGNetwork\<close> is the concatenation along axis 0 of
  the style image followed by the output of the generator twice: its batch size is one
  plus twice the batch size of the output.
\<close>

theorem extractor_input_batch:
  "\<exists>net. TextureNetwork_init (TextureNetwork_attrs\<lparr>batchSize := B\<rparr>) style_img_path = Inr net \<and>
         get_shape (texture_image net) = \<lparr>batch = 1, height = 224, width = 224, channels = 3\<rparr> \<and>
         get_shape (net_output net) = \<lparr>batch = B, height = 224, width = 224, channels = 3\<rparr> \<and>
         image_vgg net =
           VGGNetwork ''image_vgg''
             (Tensor (Concat 0 [texture_image net, net_output net, net_output net])
                \<lparr>batch = 1 + B + B, height = 224, width = 224, channels = 3\<rparr>) 1 B B"
proof -
  let ?self = "TextureNetwork_attrs\<lparr>batchSize := B\<rparr>"
  have a: "0 < channelStepSize ?self" "inputDimension ?self = 224"
    by (simp_all add: TextureNetwork_attrs_def)
  have b: "batchSize ?self = B" by simp
  from init_ok [OF a, of style_img_path] show ?thesis
    unfolding b by force
qed

section \<open>Feeding the noise\<close>

text \<open>
  Claim C10. For every \<open>M\<close>, \<open>B\<close> and \<open>k\<close> the two pyramids have the same length
  and, at every position \<open>j\<close> below \<open>k\<close>, the placeholder of \<^verbatim>\<open>input_pyramid\<close> has
  the shape of the array of \<^verbatim>\<open>noise_pyramid\<close>; binding the arrays to the placeholders
  by index, as the training loop does, succeeds and every array has the shape of its
  placeholder.
\<close>

theorem pyramids_agree:
  assumes "j < k"
  shows "length (input_pyramid name M B k) = length (noise_pyramid M B k) \<and>
         get_shape (input_pyramid name M B k ! j) = noise_pyramid M B k ! j \<and>
         bind_feeds (input_pyramid name M B k) (noise_pyramid M B k) 0 =
           Inr (zip (input_pyramid name M B k) (noise_pyramid M B k)) \<and>
         feed_compatible (zip (input_pyramid name M B k) (noise_pyramid M B k))"
proof -
  have "get_shape (input_pyramid name M B k ! j) = noise_pyramid M B k ! j"
    using assms by (simp add: input_pyramid_nth noise_pyramid_nth)
  then show ?thesis
    using pyramid_feed [of name M B k] by (simp add: length_input_pyramid length_noise_pyramid)
qed

text \<open>The middle level of the configured pyramid, 56 by 56.\<close>

theorem pyramids_agree_witness:
  "(2::nat) < 5 \<and>
   get_shape (input_pyramid ''noise'' 224 1 5 ! 2) = noise_pyramid 224 1 5 ! 2 \<and>
   noise_pyramid 224 1 5 ! 2 = \<lparr>batch = 1, height = 56, width = 56, channels = 3\<rparr> \<and>
   feed_compatible (zip (input_pyramid ''noise'' 224 1 5) (noise_pyramid 224 1 5))"
proof -
  have h: "(2::nat) < 5" by simp
  have "noise_pyramid 224 1 5 ! 2 = \<lparr>batch = 1, height = 56, width = 56, channels = 3\<rparr>"
    by (simp add: noise_pyramid_def upt_rec)
  with pyramids_agree [OF h, of "''noise''" 224 1] h show ?thesis by simp
qed

end
